theory Spec2Isabelle
  imports Main "HOL-Library.Word" "HOL-Library.Monad_Syntax"
begin

unbundle bit_operations_syntax

text \<open>
  A model of the lcd1602 driver: the bus transport of \<open>lcd_io.c\<close> (the PCF8574 register
  image, the connection to the I2C device, register writes and the status read) and the
  display protocol of \<open>lcd_ctrl.c\<close> (initialisation, instructions and \<open>DisplayLine\<close>).
  Every function takes the device object and the trace of system calls issued so far and
  returns its result together with both, updated. The functions that contain the busy
  poll return an option, \<open>None\<close> when the poll never ends.
\<close>

section \<open>Error codes\<close>

text \<open>
  The driver reports results as \<open>int\<close> status codes. \<open>EOK\<close> is defined by the sources
  themselves (\<open>#define EOK 0\<close>); the others come from \<open>errno.h\<close> and carry their Linux
  values.
\<close>

definition EOK :: int where "EOK = 0"
definition ENXIO :: int where "ENXIO = 6"
definition EBADF :: int where "EBADF = 9"
definition ENODEV :: int where "ENODEV = 19"
definition EINVAL :: int where "EINVAL = 22"

lemmas errno_defs = EOK_def ENXIO_def EBADF_def ENODEV_def EINVAL_def

section \<open>The device object (lcd\_io.c, Data Types)\<close>

text \<open>
  \<open>struct _ctrlReg\<close>: the five bit-fields of the PCF8574 output byte. The one-bit fields
  are booleans, the data nibble is a 4-bit word.
\<close>

record CtrlReg =
  RS :: bool
  RW :: bool
  EN :: bool
  LED :: bool
  D4 :: "4 word"

text \<open>
  The anonymous union overlays the bit-fields with the byte \<open>regval\<close> that is sent over the
  bus. The fields are allocated from the least significant bit: RS is bit 0, RW bit 1,
  EN bit 2 (the sources call it "PCF8574 bit 2"), LED bit 3, and D4 the upper nibble
  (\<open>readByte\<close> masks the sampled data with \<open>0xF0\<close>).
\<close>

definition regval_of :: "CtrlReg \<Rightarrow> 8 word" where
  "regval_of r =
     (if RS r then 1 else 0) OR (if RW r then 2 else 0) OR (if EN r then 4 else 0)
       OR (if LED r then 8 else 0) OR push_bit 4 (ucast (D4 r))"

text \<open>\<open>struct _LCDDev\<close>. A \<open>NULL\<close> device name is \<open>None\<close>; a closed descriptor is \<open>-1\<close>.\<close>

record LCDDev =
  device :: "string option"
  fd :: int
  busy :: bool
  exclusive :: bool
  address :: "8 word"
  AddressCounter :: "8 word"
  cx :: int
  cy :: int
  reg :: CtrlReg

definition regval :: "LCDDev \<Rightarrow> 8 word" where
  "regval d = regval_of (reg d)"

text \<open>
  The process owns a single device object, the one \<open>InitDev\<close> allocates. A pointer
  argument \<open>LCDDev *pDev\<close> is therefore either \<open>NULL\<close> or the address of that object; the
  object itself is passed through every operation and returned updated.
\<close>

datatype ptr = NULL | Dev

text \<open>\<open>InitDev\<close>: \<open>calloc\<close> zeroes the object; the argument says whether it succeeded.\<close>

definition InitDev :: "bool \<Rightarrow> LCDDev option" where
  "InitDev calloc_ok =
     (if calloc_ok then
        Some \<lparr> device = Some ''/dev/i2c-1'', fd = -1, busy = False, exclusive = False,
               address = 0x27, AddressCounter = 0, cx = 0, cy = 0,
               reg = \<lparr> RS = False, RW = False, EN = False, LED = True, D4 = 0 \<rparr> \<rparr>
      else None)"

section \<open>The operating system and the bus\<close>

text \<open>
  Every system call the driver issues is recorded, in order, in a trace. The calls whose
  result the driver looks at are answered by the environment, which may depend on
  everything that happened before:
  \<^item> \<open>open\<close> returns a descriptor, or \<open>-1\<close> together with \<open>errno\<close>;
  \<^item> \<open>ioctl(fd, I2C_SLAVE, address)\<close> returns a value that is negative on failure;
  \<^item> \<open>read(fd, &data, 1)\<close> either stores one byte or, when it fails, stores nothing.
  The sources discard the results of \<open>write\<close> and \<open>close\<close>. What \<open>write\<close> returns (the
  number of bytes transferred, or \<open>-1\<close>) is still part of the environment, so that a
  failed transfer can be spoken of; no function of the driver consults it.
\<close>

datatype Event =
    EvOpen string int
  | EvIoctl int "8 word" int
  | EvWrite int "8 word"
  | EvRead int "8 word option"
  | EvClose int

record Env =
  sys_open :: "Event list \<Rightarrow> string \<Rightarrow> int \<times> int"
  sys_ioctl :: "Event list \<Rightarrow> int \<Rightarrow> 8 word \<Rightarrow> int"
  sys_read :: "Event list \<Rightarrow> int \<Rightarrow> 8 word option"
  sys_write :: "Event list \<Rightarrow> int \<Rightarrow> 8 word \<Rightarrow> int"

type_synonym 'a io = "'a \<times> LCDDev \<times> Event list"

section \<open>Bus transport (lcd\_io.c)\<close>

definition LCDOpen :: "Env \<Rightarrow> ptr \<Rightarrow> LCDDev \<Rightarrow> Event list \<Rightarrow> int io" where
  "LCDOpen env pDev d t =
     (if pDev \<noteq> NULL then
        (if fd d = -1 then
           (case device d of
              Some name \<Rightarrow>
                (let (f, errno) = sys_open env t name;
                     t1 = t @ [EvOpen name f]
                 in if f \<noteq> -1 then
                      (let rc = sys_ioctl env t1 f (address d);
                           t2 = t1 @ [EvIoctl f (address d) rc]
                       in if rc \<ge> 0 then
                            (EOK, d\<lparr>fd := f\<rparr>, t2 @ [EvWrite f (regval d)])
                          else (ENXIO, d, t2 @ [EvClose f]))
                    else (errno, d, t1))
            | None \<Rightarrow> (ENODEV, d, t))
         else (EOK, d, t))
      else (EINVAL, d, t))"

definition LCDClose :: "Env \<Rightarrow> ptr \<Rightarrow> LCDDev \<Rightarrow> Event list \<Rightarrow> int io" where
  "LCDClose env pDev d t =
     (if pDev \<noteq> NULL then
        (if fd d \<noteq> -1 \<and> exclusive d = False then
           (EOK, d\<lparr>fd := -1\<rparr>, t @ [EvClose (fd d)])
         else (EOK, d, t))
      else (EINVAL, d, t))"

definition writeReg :: "Env \<Rightarrow> ptr \<Rightarrow> LCDDev \<Rightarrow> Event list \<Rightarrow> int io" where
  "writeReg env pDev d t =
     (if pDev \<noteq> NULL then
        (if fd d \<noteq> -1 then (EOK, d, t @ [EvWrite (fd d) (regval d)])
         else
           (case device d of
              Some name \<Rightarrow>
                (let (f, errno) = sys_open env t name;
                     t1 = t @ [EvOpen name f]
                 in if f \<noteq> -1 then
                      (let rc = sys_ioctl env t1 f (address d);
                           t2 = t1 @ [EvIoctl f (address d) rc]
                       in if rc \<ge> 0 then (EOK, d, t2 @ [EvWrite f (regval d), EvClose f])
                          else (ENXIO, d, t2 @ [EvClose f]))
                    else (errno, d, t1))
            | None \<Rightarrow> (ENODEV, d, t)))
      else (EINVAL, d, t))"

definition latch :: "Env \<Rightarrow> ptr \<Rightarrow> LCDDev \<Rightarrow> Event list \<Rightarrow> int io" where
  "latch env pDev d t =
     (if pDev \<noteq> NULL then
        (let d1 = d\<lparr>reg := (reg d)\<lparr>EN := True\<rparr>\<rparr>;
             (_, d2, t2) = writeReg env pDev d1 t;
             d3 = d2\<lparr>reg := (reg d2)\<lparr>EN := False\<rparr>\<rparr>;
             (_, d4, t4) = writeReg env pDev d3 t2
         in (EOK, d4, t4))
      else (EINVAL, d, t))"

subsection \<open>Accessors and mutators\<close>

text \<open>
  The getters store through an output pointer; the second component of their result is
  the value stored, \<open>None\<close> when nothing is stored.
\<close>

definition GetExclusive :: "ptr \<Rightarrow> ptr \<Rightarrow> LCDDev \<Rightarrow> int \<times> bool option" where
  "GetExclusive pDev out d =
     (if pDev \<noteq> NULL \<and> out \<noteq> NULL then (EOK, Some (exclusive d)) else (EINVAL, None))"

definition SetExclusive :: "ptr \<Rightarrow> bool \<Rightarrow> LCDDev \<Rightarrow> int \<times> LCDDev" where
  "SetExclusive pDev excl d =
     (if pDev \<noteq> NULL then (EINVAL, d\<lparr>exclusive := excl\<rparr>) else (EINVAL, d))"

definition GetBacklight :: "ptr \<Rightarrow> ptr \<Rightarrow> LCDDev \<Rightarrow> int \<times> bool option" where
  "GetBacklight pDev out d =
     (if pDev \<noteq> NULL \<and> out \<noteq> NULL then (EOK, Some (LED (reg d))) else (EINVAL, None))"

definition SetBacklight :: "Env \<Rightarrow> ptr \<Rightarrow> bool \<Rightarrow> LCDDev \<Rightarrow> Event list \<Rightarrow> int io" where
  "SetBacklight env pDev backlight d t =
     (if pDev \<noteq> NULL then
        (let d1 = d\<lparr>reg := (reg d)\<lparr>LED := (if backlight = True then True else False)\<rparr>\<rparr>;
             (_, d2, t2) = writeReg env pDev d1 t
         in (EINVAL, d2, t2))
      else (EINVAL, d, t))"

definition GetCursorX :: "ptr \<Rightarrow> ptr \<Rightarrow> LCDDev \<Rightarrow> int \<times> int option" where
  "GetCursorX pDev pX d =
     (if pDev \<noteq> NULL \<and> pX \<noteq> NULL then (EOK, Some (cx d)) else (EINVAL, None))"

definition GetCursorY :: "ptr \<Rightarrow> ptr \<Rightarrow> LCDDev \<Rightarrow> int \<times> int option" where
  "GetCursorY pDev pY d =
     (if pDev \<noteq> NULL \<and> pY \<noteq> NULL then (EOK, Some (cy d)) else (EINVAL, None))"

definition GetAddress :: "ptr \<Rightarrow> ptr \<Rightarrow> LCDDev \<Rightarrow> int \<times> 8 word option" where
  "GetAddress pDev out d =
     (if pDev \<noteq> NULL \<and> out \<noteq> NULL then (EOK, Some (address d)) else (EINVAL, None))"

definition SetAddress :: "ptr \<Rightarrow> 8 word \<Rightarrow> LCDDev \<Rightarrow> int \<times> LCDDev" where
  "SetAddress pDev a d =
     (if pDev \<noteq> NULL then (EOK, d\<lparr>address := a\<rparr>) else (EINVAL, d))"

definition GetDeviceName :: "ptr \<Rightarrow> ptr \<Rightarrow> LCDDev \<Rightarrow> int \<times> string option option" where
  "GetDeviceName pDev out d =
     (if pDev \<noteq> NULL \<and> out \<noteq> NULL then (EOK, Some (device d)) else (EINVAL, None))"

definition SetDeviceName :: "ptr \<Rightarrow> string option \<Rightarrow> LCDDev \<Rightarrow> int \<times> LCDDev" where
  "SetDeviceName pDev name d =
     (if pDev \<noteq> NULL then (EOK, d\<lparr>device := name\<rparr>) else (EINVAL, d))"

subsection \<open>Status read\<close>

text \<open>
  \<open>read(fd, &data, 1)\<close> on the local \<open>data\<close>: a successful read overwrites it, a failed
  one leaves what it held.
\<close>

definition c_read :: "Env \<Rightarrow> int \<Rightarrow> 8 word \<Rightarrow> Event list \<Rightarrow> 8 word \<times> Event list" where
  "c_read env f data t =
     (let r = sys_read env t f
      in (case r of Some b \<Rightarrow> b | None \<Rightarrow> data, t @ [EvRead f r]))"

text \<open>
  \<open>readByte\<close> stores the status byte through \<open>val\<close> only on success: the result carries
  \<open>Some\<close> of the byte stored, or \<open>None\<close>.
\<close>

definition readByte :: "Env \<Rightarrow> ptr \<Rightarrow> LCDDev \<Rightarrow> Event list \<Rightarrow> (int \<times> 8 word option) io" where
  "readByte env pDev d t =
     (if pDev \<noteq> NULL then
        (if fd d \<noteq> -1 then
           (let d1 = d\<lparr>reg := (reg d)\<lparr>RS := False, RW := True, D4 := 0x0F\<rparr>\<rparr>;
                t1 = t @ [EvWrite (fd d1) (regval d1)];
                d2 = d1\<lparr>reg := (reg d1)\<lparr>EN := True\<rparr>\<rparr>;
                t2 = t1 @ [EvWrite (fd d2) (regval d2)];
                (data, t3) = c_read env (fd d2) 0 t2;
                data_high = data AND 0xF0;
                d3 = d2\<lparr>reg := (reg d2)\<lparr>EN := False\<rparr>\<rparr>;
                t4 = t3 @ [EvWrite (fd d3) (regval d3)];
                d4 = d3\<lparr>reg := (reg d3)\<lparr>EN := True\<rparr>\<rparr>;
                t5 = t4 @ [EvWrite (fd d4) (regval d4)];
                (data', t6) = c_read env (fd d4) data t5;
                data_low = drop_bit 4 (data' AND 0xF0);
                d5 = d4\<lparr>reg := (reg d4)\<lparr>EN := False\<rparr>\<rparr>;
                t7 = t6 @ [EvWrite (fd d5) (regval d5)]
            in ((EOK, Some (data_high OR data_low)), d5, t7))
         else ((EBADF, None), d, t))
      else ((EINVAL, None), d, t))"

text \<open>
  \<open>readStatus\<close> decodes the byte only when \<open>readByte\<close> returned \<open>EOK\<close>, and then the byte
  has been stored; the branch without a stored byte stands for the read of the
  uninitialised local and is never reached.
\<close>

definition readStatus :: "Env \<Rightarrow> ptr \<Rightarrow> LCDDev \<Rightarrow> Event list \<Rightarrow> int io" where
  "readStatus env pDev d t =
     (if pDev \<noteq> NULL then
        (if fd d \<noteq> -1 then
           (case readByte env pDev d t of
              ((result, v), d1, t1) \<Rightarrow>
                if result = EOK then
                  (case v of
                     Some val \<Rightarrow>
                       (let d2 = d1\<lparr>busy := (val AND 0x80 \<noteq> 0)\<rparr>;
                            d3 = d2\<lparr>AddressCounter := val AND 0x7F\<rparr>;
                            d4 = d3\<lparr>cx := uint (AddressCounter d3 AND 0x3F) + 1\<rparr>;
                            d5 = d4\<lparr>cy := (if AddressCounter d4 \<ge> 0x40 then 2 else 1)\<rparr>
                        in (result, d5, t1))
                   | None \<Rightarrow> (result, d1, t1))
                else (result, d1, t1))
         else (EBADF, d, t))
      else (EINVAL, d, t))"

definition GetStatus :: "Env \<Rightarrow> ptr \<Rightarrow> LCDDev \<Rightarrow> Event list \<Rightarrow> int io" where
  "GetStatus env pDev d t =
     (if pDev \<noteq> NULL then
        (if fd d \<noteq> -1 then readStatus env pDev d t
         else
           (case device d of
              Some name \<Rightarrow>
                (let (f, errno) = sys_open env t name;
                     t1 = t @ [EvOpen name f]
                 in if f \<noteq> -1 then
                      (let rc = sys_ioctl env t1 f (address d);
                           t2 = t1 @ [EvIoctl f (address d) rc];
                           (result, d1, t3) =
                              (if rc \<ge> 0 then readStatus env pDev (d\<lparr>fd := f\<rparr>) t2
                               else (ENXIO, d, t2))
                       in (result, d1\<lparr>fd := -1\<rparr>, t3 @ [EvClose f]))
                    else (errno, d, t1))
            | None \<Rightarrow> (ENODEV, d, t)))
      else (EINVAL, d, t))"

subsection \<open>Byte write\<close>

text \<open>
  The loop \<open>do { result = GetStatus( pDev ); } while( pDev->busy );\<close> has no bound: it is
  a partial function, \<open>None\<close> when it never exits.
\<close>

partial_function (option) writeByte_poll ::
    "Env \<Rightarrow> ptr \<Rightarrow> LCDDev \<Rightarrow> Event list \<Rightarrow> (int io) option" where
  "writeByte_poll env pDev d t =
     (let s = GetStatus env pDev d t
      in if busy (fst (snd s)) then writeByte_poll env pDev (fst (snd s)) (snd (snd s))
         else Some s)"

declare writeByte_poll.simps [code]

definition writeByte ::
    "Env \<Rightarrow> ptr \<Rightarrow> 8 word \<Rightarrow> 8 word \<Rightarrow> LCDDev \<Rightarrow> Event list \<Rightarrow> (int io) option" where
  "writeByte env pDev rs val d t =
     (if pDev \<noteq> NULL then
        (let d1 = d\<lparr>reg := (reg d)\<lparr>RS := (rs \<noteq> 0)\<rparr>\<rparr>;
             d2 = d1\<lparr>reg := (reg d1)\<lparr>RW := False\<rparr>\<rparr>;
             d3 = d2\<lparr>reg := (reg d2)\<lparr>D4 := ucast (drop_bit 4 (val AND 0xF0))\<rparr>\<rparr>;
             (_, d4, t4) = writeReg env pDev d3 t;
             (_, d5, t5) = latch env pDev d4 t4;
             d6 = d5\<lparr>reg := (reg d5)\<lparr>D4 := ucast (val AND 0x0F)\<rparr>\<rparr>;
             (_, d7, t7) = writeReg env pDev d6 t5;
             (_, d8, t8) = latch env pDev d7 t7
         in writeByte_poll env pDev d8 t8)
      else Some (EINVAL, d, t))"

subsection \<open>Four-bit mode\<close>


section \<open>Display protocol (lcd\_ctrl.c)\<close>



definition SetADD :: "Env \<Rightarrow> ptr \<Rightarrow> 8 word \<Rightarrow> LCDDev \<Rightarrow> Event list \<Rightarrow> (int io) option" where
  "SetADD env pDev loc d t =
     (if pDev \<noteq> NULL then writeByte env pDev 0 (0x80 OR loc) d t else Some (EINVAL, d, t))"



text \<open>
  \<open>DisplayLine\<close> reads \<open>line[0]\<close> to \<open>line[16]\<close> whatever the text holds: the argument is
  the memory from the address \<open>line\<close> on, a byte for each index, or \<open>None\<close> for \<open>NULL\<close>;
  both pointers are tested before anything else is done. The \<open>for\<close> loop is the
  recursion on \<open>i\<close>.
\<close>

function DisplayLine_loop ::
    "Env \<Rightarrow> ptr \<Rightarrow> (nat \<Rightarrow> 8 word) \<Rightarrow> nat \<Rightarrow> int \<Rightarrow> LCDDev \<Rightarrow> Event list \<Rightarrow> (int io) option" where
  "DisplayLine_loop env pDev line i result d t =
     (if i < 17 then
        (let ch = line i;
             ch = (if ch = 0 then 0x20 else ch)
         in case writeByte env pDev 1 ch d t of
              None \<Rightarrow> None
            | Some (rc, d', t') \<Rightarrow>
                DisplayLine_loop env pDev line (i + 1) (if rc \<noteq> EOK then rc else result) d' t')
      else Some (result, d, t))"
  by pat_completeness auto
termination
  by (relation "measure (\<lambda>(env, pDev, line, i, result, d, t). 17 - i)") auto

declare DisplayLine_loop.simps [simp del]

definition DisplayLine ::
    "Env \<Rightarrow> ptr \<Rightarrow> int \<Rightarrow> (nat \<Rightarrow> 8 word) option \<Rightarrow> LCDDev \<Rightarrow> Event list \<Rightarrow> (int io) option" where
  "DisplayLine env pDev offset line d t =
     (case line of
        Some buf \<Rightarrow>
          if pDev \<noteq> NULL then
            (case LCDOpen env pDev d t of
               (result, d1, t1) \<Rightarrow>
                 if result = EOK then
                   do {
                     (result, d2, t2) \<leftarrow> SetADD env pDev (word_of_int offset) d1 t1;
                     (result, d3, t3) \<leftarrow>
                        (if result = EOK then DisplayLine_loop env pDev buf 0 result d2 t2
                         else Some (result, d2, t2));
                     let (_, d4, t4) = LCDClose env pDev d3 t3;
                     Some (result, d4, t4)
                   }
                 else Some (result, d1, t1))
          else Some (EINVAL, d, t)
      | None \<Rightarrow> Some (EINVAL, d, t))"

section \<open>Vocabulary of the properties\<close>

text \<open>
  The register images of one byte transfer, as the display controller's 4-bit interface
  prescribes them: the high nibble staged and strobed (EN high, then low), then the low
  nibble staged and strobed, with RW low throughout. Of the register the transfer starts
  from only the strobe bit (for the first staging write) and the backlight bit matter.
\<close>

definition byte_images :: "CtrlReg \<Rightarrow> 8 word \<Rightarrow> 8 word \<Rightarrow> CtrlReg list" where
  "byte_images r rs val =
     (let hi = ucast (drop_bit 4 (val AND 0xF0));
          lo = ucast (val AND 0x0F);
          img = (\<lambda>en nib. \<lparr> RS = (rs \<noteq> 0), RW = False, EN = en, LED = LED r, D4 = nib \<rparr>)
      in [img (EN r) hi, img True hi, img False hi, img False lo, img True lo, img False lo])"

text \<open>
  The register images of the single raw nibble \<open>Set4BitMode\<close> sends between its two
  function-set bytes: the nibble staged, then strobed.
\<close>

definition nibble_images :: "CtrlReg \<Rightarrow> 4 word \<Rightarrow> CtrlReg list" where
  "nibble_images r nib =
     (let img = (\<lambda>en. \<lparr> RS = False, RW = False, EN = en, LED = LED r, D4 = nib \<rparr>)
      in [img (EN r), img True, img False])"

text \<open>
  What the controller takes from a sequence of register images: it latches a nibble at
  each falling edge of EN (an image with EN high followed by one with EN low), and in
  4-bit mode two consecutive nibbles, high first, make one byte for the register that RS
  selects.
\<close>

fun falling :: "CtrlReg list \<Rightarrow> CtrlReg list" where
  "falling (a # b # rest) = (if EN a \<and> \<not> EN b then [a] else []) @ falling (b # rest)"
| "falling [a] = []"
| "falling [] = []"

fun pair_nibbles :: "CtrlReg list \<Rightarrow> (bool \<times> 8 word) list" where
  "pair_nibbles (h # l # rest) =
     (RS h, push_bit 4 (ucast (D4 h)) OR ucast (D4 l)) # pair_nibbles rest"
| "pair_nibbles [h] = []"
| "pair_nibbles [] = []"

definition bytes_sent :: "CtrlReg list \<Rightarrow> (bool \<times> 8 word) list" where
  "bytes_sent imgs = pair_nibbles (falling imgs)"

text \<open>Calling \<open>writeReg\<close> once for each register image of a list, in order.\<close>

fun write_images :: "Env \<Rightarrow> ptr \<Rightarrow> CtrlReg list \<Rightarrow> LCDDev \<Rightarrow> Event list \<Rightarrow> LCDDev \<times> Event list" where
  "write_images env pDev [] d t = (d, t)"
| "write_images env pDev (r # rs) d t =
     (let s = writeReg env pDev (d\<lparr>reg := r\<rparr>) t
      in write_images env pDev rs (fst (snd s)) (snd (snd s)))"

text \<open>The outcome of the last of \<open>n + 1\<close> consecutive calls of \<open>GetStatus\<close>.\<close>

fun status_reads :: "nat \<Rightarrow> Env \<Rightarrow> ptr \<Rightarrow> LCDDev \<Rightarrow> Event list \<Rightarrow> int io" where
  "status_reads 0 env pDev d t = GetStatus env pDev d t"
| "status_reads (Suc n) env pDev d t =
     (let s = GetStatus env pDev d t
      in status_reads n env pDev (fst (snd s)) (snd (snd s)))"

text \<open>
  The bytes a trace sends to the expander with the RW line (bit 1) low, in order: the
  traffic that addresses the controller's instruction and data registers for writing.
  The status read drives RW high in all its transfers.
\<close>

fun ctl_write :: "Event \<Rightarrow> 8 word list" where
  "ctl_write (EvWrite f b) = (if bit b 1 then [] else [b])"
| "ctl_write _ = []"

definition ctl_writes :: "Event list \<Rightarrow> 8 word list" where
  "ctl_writes t = concat (map ctl_write t)"

text \<open>The register as a status read leaves it: only the backlight bit is kept.\<close>

definition status_reg :: "CtrlReg \<Rightarrow> CtrlReg" where
  "status_reg r = \<lparr> RS = False, RW = True, EN = False, LED = LED r, D4 = 0x0F \<rparr>"

text \<open>
  The character \<open>DisplayLine\<close> sends for position \<open>i\<close> of the buffer, and a buffer
  that holds a text followed by zero bytes.
\<close>

definition shown :: "(nat \<Rightarrow> 8 word) \<Rightarrow> nat \<Rightarrow> 8 word" where
  "shown buf i = (if buf i = 0 then 0x20 else buf i)"

definition text_buffer :: "8 word list \<Rightarrow> nat \<Rightarrow> 8 word" where
  "text_buffer s i = (if i < length s then s ! i else 0)"

text \<open>
  Reading a register image back from the byte on the bus, and the bytes the controller
  receives from the write traffic of a trace that starts with EN low.
\<close>

definition reg_of_byte :: "8 word \<Rightarrow> CtrlReg" where
  "reg_of_byte b =
     \<lparr> RS = bit b 0, RW = bit b 1, EN = bit b 2, LED = bit b 3, D4 = ucast (drop_bit 4 b) \<rparr>"

definition received :: "Event list \<Rightarrow> (bool \<times> 8 word) list" where
  "received t = bytes_sent (map reg_of_byte (ctl_writes t))"

definition received_in :: "(int io) option \<Rightarrow> (bool \<times> 8 word) list option" where
  "received_in res = map_option (\<lambda>s. received (snd (snd s))) res"

text \<open>The register images of the seventeen data bytes \<open>DisplayLine\<close> sends.\<close>

definition line_images :: "CtrlReg \<Rightarrow> (nat \<Rightarrow> 8 word) \<Rightarrow> CtrlReg list" where
  "line_images r buf = concat (map (\<lambda>i. byte_images (status_reg r) 1 (shown buf i)) [0..<17])"

text \<open>
  A controller is never busy when no sample the bus returns has bit 7 set; then every
  busy poll ends with its first status read.
\<close>

definition never_busy :: "Env \<Rightarrow> bool" where
  "never_busy env = (\<forall>t f b. sys_read env t f = Some b \<longrightarrow> \<not> bit b 7)"


text \<open>
  One sampling of the controller's status register on descriptor \<open>f\<close>, as the 4-bit
  interface prescribes it: with RS low, RW high and the data lines high, the strobe is
  raised and the bus read for the high nibble, the strobe is dropped and raised again
  and the bus read for the low nibble, and the strobe is dropped. Each nibble arrives on
  the upper four lines. The result is the status byte sampled and the trace extended by
  these five writes and two reads. A read that fails leaves the byte of the read before
  it (zero at the first).
\<close>

definition sample_status :: "Env \<Rightarrow> int \<Rightarrow> CtrlReg \<Rightarrow> Event list \<Rightarrow> 8 word \<times> Event list" where
  "sample_status env f r t =
     (let img = (\<lambda>en. regval_of \<lparr> RS = False, RW = True, EN = en, LED = LED r, D4 = 0x0F \<rparr>);
          t1 = t @ [EvWrite f (img (EN r)), EvWrite f (img True)];
          (hi, t2) = c_read env f 0 t1;
          t3 = t2 @ [EvWrite f (img False), EvWrite f (img True)];
          (lo, t4) = c_read env f hi t3
      in ((hi AND 0xF0) OR drop_bit 4 (lo AND 0xF0), t4 @ [EvWrite f (img False)]))"


text \<open>
  The device object after a status byte \<open>v\<close> has been taken in: bit 7 is the busy flag,
  the lower seven bits are the address counter, from which the cursor column and row
  derive; the register is left as the status read drives it.
\<close>

definition decoded :: "LCDDev \<Rightarrow> 8 word \<Rightarrow> LCDDev" where
  "decoded d v =
     d\<lparr>reg := status_reg (reg d), busy := bit v 7, AddressCounter := v AND 0x7F,
       cx := uint (v AND 0x7F) mod 0x40 + 1,
       cy := (if v AND 0x7F \<ge> 0x40 then 2 else 1)\<rparr>"




subsection \<open>Concrete devices and environments\<close>

text \<open>The device as \<open>InitDev\<close> leaves it, and the same device holding descriptor 3.\<close>

definition dev0 :: LCDDev where
  "dev0 = \<lparr> device = Some ''/dev/i2c-1'', fd = -1, busy = False, exclusive = False,
            address = 0x27, AddressCounter = 0, cx = 0, cy = 0,
            reg = \<lparr> RS = False, RW = False, EN = False, LED = True, D4 = 0 \<rparr> \<rparr>"

definition dev_open :: LCDDev where
  "dev_open = dev0\<lparr>fd := 3\<rparr>"

fun is_read :: "Event \<Rightarrow> bool" where
  "is_read (EvRead f r) = True"
| "is_read _ = False"

text \<open>
  A bus on which \<open>open\<close> yields descriptor 3 and \<open>ioctl\<close> succeeds, with a controller that
  presents the status byte \<open>status k\<close> at the \<open>k\<close>-th status read: the expander returns the
  high nibble at the first sample of a status read and the low nibble at the second,
  each on its upper four lines.
\<close>

definition lcd_env :: "(nat \<Rightarrow> 8 word) \<Rightarrow> Env" where
  "lcd_env status =
     \<lparr> sys_open = (\<lambda>t name. (3, 0)),
       sys_ioctl = (\<lambda>t f a. 0),
       sys_read = (\<lambda>t f.
          (let n = length (filter is_read t)
           in Some (if even n then status (n div 2) AND 0xF0
                    else push_bit 4 (status (n div 2) AND 0x0F)))),
       sys_write = (\<lambda>t f b. 1) \<rparr>"

text \<open>A controller that presents the same status byte at every status read.\<close>

definition steady_env :: "8 word \<Rightarrow> Env" where
  "steady_env v = lcd_env (\<lambda>k. v)"

text \<open>The bytes of the text "Hello World".\<close>

definition hello_world :: "8 word list" where
  "hello_world = [0x48, 0x65, 0x6C, 0x6C, 0x6F, 0x20, 0x57, 0x6F, 0x72, 0x6C, 0x64]"

text \<open>A system on which the bus device cannot be opened (\<open>ENOENT\<close>).\<close>

definition absent_env :: Env where
  "absent_env =
     \<lparr> sys_open = (\<lambda>t name. (-1, 2)),
       sys_ioctl = (\<lambda>t f a. -1),
       sys_read = (\<lambda>t f. None),
       sys_write = (\<lambda>t f b. -1) \<rparr>"



text \<open>A bus that can be opened but on which setting the slave address fails.\<close>

definition unaddressed_env :: Env where
  "unaddressed_env =
     \<lparr> sys_open = (\<lambda>t name. (3, 0)),
       sys_ioctl = (\<lambda>t f a. -1),
       sys_read = (\<lambda>t f. None),
       sys_write = (\<lambda>t f b. -1) \<rparr>"


section \<open>Register writes\<close>

lemma writeReg_dev: "fst (snd (writeReg env pDev d t)) = d"
  by (simp add: writeReg_def Let_def split: option.split prod.split)

lemma writeReg_held:
  "fd d \<noteq> -1 \<Longrightarrow> writeReg env Dev d t = (EOK, d, t @ [EvWrite (fd d) (regval d)])"
  by (simp add: writeReg_def)

lemma write_images_held:
  "fd d \<noteq> -1 \<Longrightarrow>
   write_images env Dev imgs d t =
     (if imgs = [] then d else d\<lparr>reg := last imgs\<rparr>,
      t @ map (\<lambda>r. EvWrite (fd d) (regval_of r)) imgs)"
proof (induction imgs arbitrary: d t)
  case Nil
  then show ?case by simp
next
  case (Cons r rs)
  then show ?case by (simp add: writeReg_held Let_def regval_def)
qed

text \<open>
  C8 (as amended). \<open>writeReg\<close> never changes the device object, so the stored descriptor is
  the same after the call as before. With a connection held it makes one one-byte
  transfer of the register image on that descriptor and neither opens nor closes. With
  no connection held it opens a transient descriptor only if a device name is
  configured (\<open>ENODEV\<close> otherwise); if \<open>open\<close> fails it returns \<open>errno\<close> with nothing
  transferred and nothing to close; if the address \<open>ioctl\<close> fails it closes the
  descriptor without a transfer (\<open>ENXIO\<close>); only if both succeed does it make the single
  transfer and then close the descriptor.
\<close>

theorem writeReg_transfer:
  "fst (snd (writeReg env Dev d t)) = d
   \<and> (fd d \<noteq> -1 \<longrightarrow> writeReg env Dev d t = (EOK, d, t @ [EvWrite (fd d) (regval d)]))
   \<and> (fd d = -1 \<longrightarrow> device d = None \<longrightarrow> writeReg env Dev d t = (ENODEV, d, t))
   \<and> (fd d = -1 \<longrightarrow> device d = Some name \<longrightarrow> sys_open env t name = (f, e) \<longrightarrow>
        writeReg env Dev d t =
          (if f = -1 then (e, d, t @ [EvOpen name f])
           else
             (let rc = sys_ioctl env (t @ [EvOpen name f]) f (address d)
              in if rc \<ge> 0 then
                   (EOK, d, t @ [EvOpen name f, EvIoctl f (address d) rc,
                                 EvWrite f (regval d), EvClose f])
                 else (ENXIO, d, t @ [EvOpen name f, EvIoctl f (address d) rc, EvClose f]))))"
  by (simp add: writeReg_dev) (simp add: writeReg_def Let_def)

theorem writeReg_transfer_witness:
  "fd dev_open \<noteq> -1
   \<and> writeReg (lcd_env (\<lambda>k. 0)) Dev dev_open [] = (EOK, dev_open, [EvWrite 3 8])
   \<and> fd dev0 = -1 \<and> device dev0 = Some ''/dev/i2c-1''
   \<and> sys_open (lcd_env (\<lambda>k. 0)) [] ''/dev/i2c-1'' = (3, 0)
   \<and> writeReg (lcd_env (\<lambda>k. 0)) Dev dev0 [] =
       (EOK, dev0, [EvOpen ''/dev/i2c-1'' 3, EvIoctl 3 0x27 0, EvWrite 3 8, EvClose 3])
   \<and> device (dev0\<lparr>device := None\<rparr>) = None
   \<and> writeReg (lcd_env (\<lambda>k. 0)) Dev (dev0\<lparr>device := None\<rparr>) [] =
       (ENODEV, dev0\<lparr>device := None\<rparr>, [])"
  using writeReg_transfer [of "lcd_env (\<lambda>k. 0)" dev_open "[]" "''/dev/i2c-1''" 3 0]
    writeReg_transfer [of "lcd_env (\<lambda>k. 0)" dev0 "[]" "''/dev/i2c-1''" 3 0]
    writeReg_transfer [of "lcd_env (\<lambda>k. 0)" "dev0\<lparr>device := None\<rparr>" "[]" "''/dev/i2c-1''" 3 0]
  by (simp add: dev_open_def dev0_def lcd_env_def regval_def regval_of_def EOK_def)

text \<open>
  C8 as stated fails where the bus device cannot be opened: no connection is held, and
  \<open>writeReg\<close> returns \<open>errno\<close> after the failed \<open>open\<close>, without any transfer and without
  a \<open>close\<close>.
\<close>

theorem writeReg_transfer_counterexample:
  "fd dev0 = -1
   \<and> writeReg absent_env Dev dev0 [] = (2, dev0, [EvOpen ''/dev/i2c-1'' (-1)])"
  by (simp add: writeReg_def dev0_def absent_env_def)

section \<open>The byte write and its busy poll\<close>

lemma poll_exits:
  assumes "writeByte_poll env pDev d t = Some s"
  shows "\<exists>n. status_reads n env pDev d t = s \<and> \<not> busy (fst (snd s))
              \<and> (\<forall>k<n. busy (fst (snd (status_reads k env pDev d t))))"
proof (rule writeByte_poll.raw_induct
    [where P = "\<lambda>env pDev d t s. \<exists>n. status_reads n env pDev d t = s \<and> \<not> busy (fst (snd s))
              \<and> (\<forall>k<n. busy (fst (snd (status_reads k env pDev d t))))", OF _ assms],
    goal_cases)
  case (1 poll env pDev d t s)
  let ?g = "GetStatus env pDev d t"
  show ?case
  proof (cases "busy (fst (snd ?g))")
    case False
    with 1(2) have "s = ?g" by (simp add: Let_def)
    with False have "status_reads 0 env pDev d t = s \<and> \<not> busy (fst (snd s))
        \<and> (\<forall>k<0. busy (fst (snd (status_reads k env pDev d t))))" by simp
    then show ?thesis by blast
  next
    case True
    with 1(2) have "poll env pDev (fst (snd ?g)) (snd (snd ?g)) = Some s"
      by (simp add: Let_def)
    from 1(1) [OF this] obtain n where
      n: "status_reads n env pDev (fst (snd ?g)) (snd (snd ?g)) = s" "\<not> busy (fst (snd s))"
         "\<forall>k<n. busy (fst (snd (status_reads k env pDev (fst (snd ?g)) (snd (snd ?g)))))"
      by blast
    have "\<forall>k<Suc n. busy (fst (snd (status_reads k env pDev d t)))"
    proof (intro allI impI)
      fix k assume "k < Suc n"
      then show "busy (fst (snd (status_reads k env pDev d t)))"
        using True n(3) by (cases k) (simp_all add: Let_def)
    qed
    with n(1,2) have "status_reads (Suc n) env pDev d t = s \<and> \<not> busy (fst (snd s))
        \<and> (\<forall>k<Suc n. busy (fst (snd (status_reads k env pDev d t))))"
      by (simp add: Let_def)
    then show ?thesis by blast
  qed
qed

text \<open>
  Conversely the loop does return as soon as one status read leaves the busy flag clear.
\<close>

lemma poll_returns:
  "status_reads n env pDev d t = s \<Longrightarrow> \<not> busy (fst (snd s)) \<Longrightarrow>
   (\<forall>k<n. busy (fst (snd (status_reads k env pDev d t)))) \<Longrightarrow>
   writeByte_poll env pDev d t = Some s"
proof (induction n arbitrary: d t)
  case 0
  then show ?case by (subst writeByte_poll.simps) (simp add: Let_def)
next
  case (Suc n)
  let ?g = "GetStatus env pDev d t"
  from Suc.prems(3) have b: "busy (fst (snd ?g))"
    by (metis status_reads.simps(1) zero_less_Suc)
  have "\<forall>k<n. busy (fst (snd (status_reads k env pDev (fst (snd ?g)) (snd (snd ?g)))))"
  proof (intro allI impI)
    fix k assume "k < n"
    then have "Suc k < Suc n" by simp
    from Suc.prems(3) [rule_format, OF this]
    show "busy (fst (snd (status_reads k env pDev (fst (snd ?g)) (snd (snd ?g)))))"
      by (simp add: Let_def)
  qed
  with Suc.IH [of "fst (snd ?g)" "snd (snd ?g)"] Suc.prems(1,2)
  have "writeByte_poll env pDev (fst (snd ?g)) (snd (snd ?g)) = Some s"
    by (simp add: Let_def)
  with b show ?case by (subst writeByte_poll.simps) (simp add: Let_def)
qed

lemma writeByte_unfold:
  "writeByte env Dev rs val d t =
     (let s = write_images env Dev (byte_images (reg d) rs val) d t
      in writeByte_poll env Dev (fst s) (snd s))"
  by (cases "reg d")
     (simp add: writeByte_def latch_def byte_images_def Let_def split_beta writeReg_dev)

lemma writeByte_shape:
  assumes "writeByte env Dev rs val d t = Some (r, d', t')"
  shows "\<exists>n d6 t6.
      write_images env Dev (byte_images (reg d) rs val) d t = (d6, t6)
    \<and> status_reads n env Dev d6 t6 = (r, d', t')
    \<and> \<not> busy d'
    \<and> (\<forall>k<n. busy (fst (snd (status_reads k env Dev d6 t6))))
    \<and> (fd d \<noteq> -1 \<longrightarrow>
         t6 = t @ map (\<lambda>i. EvWrite (fd d) (regval_of i)) (byte_images (reg d) rs val))"
proof -
  obtain d6 t6 where w: "write_images env Dev (byte_images (reg d) rs val) d t = (d6, t6)"
    by (cases "write_images env Dev (byte_images (reg d) rs val) d t")
  with assms have "writeByte_poll env Dev d6 t6 = Some (r, d', t')"
    by (simp add: writeByte_unfold)
  from poll_exits [OF this] obtain n where
    "status_reads n env Dev d6 t6 = (r, d', t')" "\<not> busy d'"
    "\<forall>k<n. busy (fst (snd (status_reads k env Dev d6 t6)))"
    by auto
  moreover have "fd d \<noteq> -1 \<longrightarrow>
         t6 = t @ map (\<lambda>i. EvWrite (fd d) (regval_of i)) (byte_images (reg d) rs val)"
    using w by (auto simp: write_images_held)
  ultimately show ?thesis using w by blast
qed

text \<open>
  The six register images of a byte transfer contain exactly two strobes, and the
  controller reads from them the one byte \<open>val\<close> for the register \<open>rs\<close> selects, high
  nibble first.
\<close>

lemma mask4_byte: "(15::8 word) = mask 4"
  by (simp add: mask_eq_exp_minus_1)

lemma nibbles_join:
  "push_bit 4 (ucast (ucast (drop_bit 4 (val AND 0xF0)) :: 4 word)) OR
     ucast (ucast (val AND 0x0F) :: 4 word) = (val :: 8 word)"
  by (rule bit_word_eqI) (auto simp: bit_simps mask4_byte)



lemmas eval_defs = writeByte_def latch_def writeReg_def dev_open_def dev0_def Let_def
  regval_def GetStatus_def readStatus_def readByte_def c_read_def lcd_env_def absent_env_def
  steady_env_def regval_of_def errno_defs

section \<open>The status read\<close>

lemma and63: "uint ((a::8 word) AND 0x3F) = uint a mod 64"
proof -
  have "uint (a AND 0x3F) = uint (take_bit 6 a)"
    by (simp add: take_bit_eq_mask mask_eq_exp_minus_1)
  also have "\<dots> = take_bit 6 (uint a)" by (rule unsigned_take_bit_eq)
  also have "\<dots> = uint a mod 64" by (simp add: take_bit_eq_mod)
  finally show ?thesis .
qed

lemma and127: "(v::8 word) AND 0x7F \<le> 127"
  by (simp add: word_and_le1)

lemma bit_regval_RW: "bit (regval_of r) (Suc 0) = RW r"
  by (simp add: regval_of_def bit_simps)

lemma ctl_writes_append [simp]: "ctl_writes (t @ t') = ctl_writes t @ ctl_writes t'"
  by (simp add: ctl_writes_def)

lemma ctl_writes_Nil [simp]: "ctl_writes [] = []"
  by (simp add: ctl_writes_def)

lemma ctl_writes_Cons [simp]: "ctl_writes (e # t) = ctl_write e @ ctl_writes t"
  by (simp add: ctl_writes_def)

lemma ctl_write_regval [simp]:
  "ctl_write (EvWrite f (regval_of r)) = (if RW r then [] else [regval_of r])"
  by (simp add: bit_regval_RW)

lemma readByte_held:
  assumes "fd d \<noteq> -1"
  shows "\<exists>v tr. readByte env Dev d t = ((EOK, Some v), d\<lparr>reg := status_reg (reg d)\<rparr>, t @ tr)
           \<and> ctl_writes tr = []"
proof -
  obtain rs rw en led d4 where r: "reg d = \<lparr> RS = rs, RW = rw, EN = en, LED = led, D4 = d4 \<rparr>"
    by (cases "reg d") auto
  show ?thesis using assms r
    by (simp add: readByte_def c_read_def Let_def split_beta status_reg_def regval_def
        bit_regval_RW)
qed

lemma readStatus_held:
  assumes "fd d \<noteq> -1"
  shows "\<exists>v tr. readStatus env Dev d t =
           (EOK, d\<lparr>reg := status_reg (reg d), busy := (v AND 0x80 \<noteq> 0),
                   AddressCounter := v AND 0x7F, cx := uint (v AND 0x7F) mod 64 + 1,
                   cy := (if v AND 0x7F \<ge> 0x40 then 2 else 1)\<rparr>, t @ tr)
           \<and> ctl_writes tr = []"
proof -
  from readByte_held [OF assms, of env t] obtain v tr where
    "readByte env Dev d t = ((EOK, Some v), d\<lparr>reg := status_reg (reg d)\<rparr>, t @ tr)"
    "ctl_writes tr = []" by blast
  then show ?thesis using assms and63 [of "v AND 0x7F"]
    by (intro exI [of _ v] exI [of _ tr]) (simp add: readStatus_def Let_def)
qed

lemma readStatus_closed:
  "fd d = -1 \<Longrightarrow> readStatus env Dev d t = (EBADF, d, t)"
  by (simp add: readStatus_def)

lemma readByte_closed:
  "fd d = -1 \<Longrightarrow> readByte env Dev d t = ((EBADF, None), d, t)"
  by (simp add: readByte_def)

lemma GetStatus_held: "fd d \<noteq> -1 \<Longrightarrow> GetStatus env Dev d t = readStatus env Dev d t"
  by (simp add: GetStatus_def)

lemma GetStatus_fd: "fd (fst (snd (GetStatus env pDev d t))) = fd d"
proof (cases "fd d = -1")
  case True
  then show ?thesis
    by (simp add: GetStatus_def Let_def split_beta split: option.split)
next
  case False
  then show ?thesis
    using readStatus_held [OF False, of env t]
    by (cases pDev) (auto simp: GetStatus_def readStatus_def)
qed

lemma GetStatus_run:
  "GetStatus (steady_env 0x11) Dev dev0 [] =
   (0, \<lparr>device = Some ''/dev/i2c-1'', fd = - 1, busy = False,
        exclusive = False, address = 39, AddressCounter = 17, cx = 18,
        cy = 1,
        reg = \<lparr>RS = False, RW = True, EN = False, LED = True, D4 = 15\<rparr>\<rparr>,
  [EvOpen ''/dev/i2c-1'' 3, EvIoctl 3 39 0, EvWrite 3 250, EvWrite 3 254,
   EvRead 3 (Some 16), EvWrite 3 250, EvWrite 3 254, EvRead 3 (Some 16),
   EvWrite 3 250, EvClose 3])"
  by (simp add: eval_defs)

lemma readStatus_cursor:
  assumes "fd d \<noteq> -1"
  shows "AddressCounter (fst (snd (readStatus env Dev d t))) \<le> 127
    \<and> cx (fst (snd (readStatus env Dev d t))) =
        uint (AddressCounter (fst (snd (readStatus env Dev d t)))) mod 64 + 1
    \<and> cy (fst (snd (readStatus env Dev d t))) =
        (if AddressCounter (fst (snd (readStatus env Dev d t))) \<ge> 0x40 then 2 else 1)"
  using readStatus_held [OF assms, of env t] and127 by auto

text \<open>
  C6 (as amended). After a status read on a held connection the address counter is at
  most 127, the cursor column that \<open>GetCursorX\<close> returns lies between 1 and 64 (it is
  within 1 to 16 exactly when the address counter modulo 64 is below 16), and the cursor
  row that \<open>GetCursorY\<close> returns is 1 or 2. The column is the address counter modulo 64
  plus 1, and the row is 2 exactly when the address counter is at least \<open>0x40\<close>.
\<close>

theorem cursor_range:
  assumes "fd d \<noteq> -1" and "readStatus env Dev d t = (r, d', t')"
  shows "AddressCounter d' \<le> 127
    \<and> 1 \<le> cx d' \<and> cx d' \<le> 64 \<and> 1 \<le> cy d' \<and> cy d' \<le> 2
    \<and> (cx d' \<le> 16 \<longleftrightarrow> uint (AddressCounter d') mod 64 < 16)
    \<and> GetCursorX Dev Dev d' = (EOK, Some (cx d'))
    \<and> GetCursorY Dev Dev d' = (EOK, Some (cy d'))
    \<and> cx d' = uint (AddressCounter d') mod 64 + 1
    \<and> cy d' = (if AddressCounter d' \<ge> 0x40 then 2 else 1)"
proof -
  have m: "0 \<le> uint (AddressCounter d') mod 64" "uint (AddressCounter d') mod 64 < 64"
    by simp_all
  from readStatus_cursor [OF assms(1), of env t] assms(2)
  have "AddressCounter d' \<le> 127" "cx d' = uint (AddressCounter d') mod 64 + 1"
    "cy d' = (if AddressCounter d' \<ge> 0x40 then 2 else 1)"
    by simp_all
  with m show ?thesis
    by (auto simp: GetCursorX_def GetCursorY_def)
qed

lemma readStatus_run:
  "readStatus (steady_env 0x11) Dev dev_open [] =
    (0, \<lparr>device = Some ''/dev/i2c-1'', fd = 3, busy = False, exclusive = False,
        address = 39, AddressCounter = 17, cx = 18, cy = 1,
        reg = \<lparr>RS = False, RW = True, EN = False, LED = True, D4 = 15\<rparr>\<rparr>,
  [EvWrite 3 250, EvWrite 3 254, EvRead 3 (Some 16), EvWrite 3 250,
   EvWrite 3 254, EvRead 3 (Some 16), EvWrite 3 250])"
  by (simp add: eval_defs)

text \<open>
  C6 as stated fails at address counter 17 (the position after a full line has been
  written from offset 0): the cursor column is 18.
\<close>

theorem cursor_range_counterexample:
  "fd dev_open \<noteq> -1
   \<and> AddressCounter (fst (snd (readStatus (steady_env 0x11) Dev dev_open []))) = 17
   \<and> GetCursorX Dev Dev (fst (snd (readStatus (steady_env 0x11) Dev dev_open [])))
        = (EOK, Some 18)"
  by (simp add: readStatus_run GetCursorX_def) (simp add: dev_open_def)

theorem cursor_range_witness:
  "fd dev_open \<noteq> -1
   \<and> AddressCounter (fst (snd (readStatus (steady_env 0x11) Dev dev_open []))) \<le> 127
   \<and> cx (fst (snd (readStatus (steady_env 0x11) Dev dev_open []))) = 18
   \<and> cy (fst (snd (readStatus (steady_env 0x11) Dev dev_open []))) = 1
   \<and> GetCursorX Dev Dev (fst (snd (readStatus (steady_env 0x11) Dev dev_open [])))
        = (EOK, Some 18)"
proof -
  have o: "fd dev_open \<noteq> -1" by (simp add: dev_open_def)
  from cursor_range [OF o readStatus_run] show ?thesis using o
    by (simp add: readStatus_run)
qed


section \<open>Initialisation\<close>

lemma byte_images_cong:
  "EN r = EN r' \<Longrightarrow> LED r = LED r' \<Longrightarrow> byte_images r rs v = byte_images r' rs v"
  by (simp add: byte_images_def)

lemma ctl_writes_images:
  "\<forall>r \<in> set imgs. \<not> RW r \<Longrightarrow>
   ctl_writes (map (\<lambda>i. EvWrite f (regval_of i)) imgs) = map regval_of imgs"
  by (induction imgs) (simp_all add: bit_regval_RW)

lemma byte_images_RW: "\<forall>r \<in> set (byte_images r0 rs v). \<not> RW r"
  by (simp add: byte_images_def Let_def)

lemma last_byte_images:
  "byte_images r rs v \<noteq> [] \<and> LED (last (byte_images r rs v)) = LED r
   \<and> \<not> EN (last (byte_images r rs v))"
  by (simp add: byte_images_def Let_def)

lemma status_reads_held:
  "fd d \<noteq> -1 \<Longrightarrow> status_reads n env Dev d t = (r, d', t') \<Longrightarrow>
   r = EOK \<and> fd d' = fd d \<and> reg d' = status_reg (reg d) \<and> ctl_writes t' = ctl_writes t
   \<and> device d' = device d \<and> exclusive d' = exclusive d \<and> address d' = address d"
proof (induction n arbitrary: d t)
  case 0
  then show ?case
    using readStatus_held [of d env t] by (auto simp: GetStatus_held)
next
  case (Suc n)
  from readStatus_held [OF Suc.prems(1), of env t] obtain v tr where
    g: "GetStatus env Dev d t =
           (EOK, d\<lparr>reg := status_reg (reg d), busy := (v AND 0x80 \<noteq> 0),
                   AddressCounter := v AND 0x7F, cx := uint (v AND 0x7F) mod 64 + 1,
                   cy := (if v AND 0x7F \<ge> 0x40 then 2 else 1)\<rparr>, t @ tr)"
       "ctl_writes tr = []"
    using Suc.prems(1) by (auto simp: GetStatus_held)
  let ?d1 = "d\<lparr>reg := status_reg (reg d), busy := (v AND 0x80 \<noteq> 0),
                   AddressCounter := v AND 0x7F, cx := uint (v AND 0x7F) mod 64 + 1,
                   cy := (if v AND 0x7F \<ge> 0x40 then 2 else 1)\<rparr>"
  from Suc.prems(2) g(1) have "status_reads n env Dev ?d1 (t @ tr) = (r, d', t')"
    by (simp add: Let_def)
  from Suc.IH [OF _ this] Suc.prems(1) g(2) show ?case
    by (simp add: status_reg_def)
qed

lemma writeByte_held:
  assumes "fd d \<noteq> -1" and "writeByte env Dev rs val d t = Some (r, d', t')"
  shows "r = EOK \<and> fd d' = fd d \<and> reg d' = status_reg (reg d)
    \<and> ctl_writes t' = ctl_writes t @ map regval_of (byte_images (reg d) rs val)
    \<and> device d' = device d \<and> exclusive d' = exclusive d \<and> address d' = address d"
proof -
  let ?imgs = "byte_images (reg d) rs val"
  from writeByte_shape [OF assms(2)] assms(1) obtain n d6 t6 where
    w: "write_images env Dev ?imgs d t = (d6, t6)"
       "status_reads n env Dev d6 t6 = (r, d', t')"
       "t6 = t @ map (\<lambda>i. EvWrite (fd d) (regval_of i)) ?imgs"
    by blast
  from w(1) assms(1) last_byte_images [of "reg d" rs val]
  have d6: "d6 = d\<lparr>reg := last ?imgs\<rparr>" by (simp add: write_images_held)
  then have f6: "fd d6 \<noteq> -1" using assms(1) by simp
  from status_reads_held [OF f6 w(2)] d6 w(3) last_byte_images [of "reg d" rs val]
    ctl_writes_images [OF byte_images_RW, of "fd d" "reg d" rs val]
  show ?thesis by (simp add: status_reg_def)
qed

lemma write_images_fd: "fd (fst (write_images env pDev imgs d t)) = fd d"
  by (induction imgs arbitrary: d t) (simp_all add: Let_def writeReg_dev)


section \<open>Writing a line\<close>

lemma bit_small_byte:
  "bit (2::int) k = (k = 1)" "bit (4::int) k = (k = 2)" "bit (8::int) k = (k = 3)"
  using bit_exp_iff [where ?'a = int, of 1 k] bit_exp_iff [where ?'a = int, of 2 k]
    bit_exp_iff [where ?'a = int, of 3 k]
  by auto

lemma reg_of_byte_regval [simp]: "reg_of_byte (regval_of r) = r"
proof -
  have "ucast (drop_bit 4 (regval_of r)) = D4 r"
    by (rule bit_word_eqI) (auto simp: regval_of_def bit_simps bit_small_byte)
  moreover have "bit (regval_of r) 0 = RS r" "bit (regval_of r) 1 = RW r"
    "bit (regval_of r) 2 = EN r" "bit (regval_of r) 3 = LED r"
    by (simp_all add: regval_of_def bit_simps)
  ultimately show ?thesis by (simp add: reg_of_byte_def)
qed

lemma falling_skip: "\<not> EN a \<Longrightarrow> falling (a # rest) = falling rest"
  by (cases rest) simp_all

lemma bytes_sent_block:
  "bytes_sent (byte_images r rs v @ rest) = (rs \<noteq> 0, v) # bytes_sent rest"
  using nibbles_join [of v]
  by (simp add: bytes_sent_def byte_images_def Let_def falling_skip)

lemma bytes_sent_blocks:
  "bytes_sent (concat (map (\<lambda>j. byte_images r 1 (g j)) js)) = map (\<lambda>j. (True, g j)) js"
  by (induction js) (simp_all add: bytes_sent_block, simp add: bytes_sent_def)

lemma busy_bit:
  "(((a AND 0xF0) OR (drop_bit 4 b AND 0x0F)) AND 0x80 = 0) = (\<not> bit (a :: 8 word) 7)"
proof -
  have "(((a AND 0xF0) OR (drop_bit 4 b AND 0x0F)) AND 2 ^ 7 = 0)
          = (\<not> bit ((a AND 0xF0) OR (drop_bit 4 b AND 0x0F)) 7)"
    by (rule and_exp_eq_0_iff_not_bit)
  moreover have "bit ((a AND 0xF0) OR (drop_bit 4 b AND 0x0F)) 7 = bit a 7"
    by (auto simp: bit_simps mask4_byte dest: bit_imp_le_length)
  ultimately show ?thesis by simp
qed

lemma status_reg_idem [simp]:
  "status_reg (status_reg r) = status_reg r" "\<not> EN (status_reg r)"
  "LED (status_reg r) = LED r"
  by (simp_all add: status_reg_def)

lemma DisplayLine_loop_held:
  "fd d \<noteq> -1 \<Longrightarrow> \<not> EN (reg d) \<Longrightarrow>
   DisplayLine_loop env Dev buf i res d t = Some (r, d', t') \<Longrightarrow>
   r = res \<and> fd d' = fd d \<and> exclusive d' = exclusive d
   \<and> ctl_writes t' = ctl_writes t @
        map regval_of (concat (map (\<lambda>j. byte_images (status_reg (reg d)) 1 (shown buf j)) [i..<17]))"
proof (induction "17 - i" arbitrary: i res d t)
  case 0
  then have "\<not> i < 17" by simp
  with "0.prems"(3) show ?case
    by (subst (asm) DisplayLine_loop.simps) simp
next
  case (Suc k)
  then have i: "i < 17" by simp
  let ?ch = "shown buf i"
  from Suc.prems(3) i obtain rc d1 t1 where
    w: "writeByte env Dev 1 ?ch d t = Some (rc, d1, t1)"
    and l: "DisplayLine_loop env Dev buf (i + 1) (if rc \<noteq> EOK then rc else res) d1 t1
              = Some (r, d', t')"
    by (subst (asm) DisplayLine_loop.simps)
       (auto simp: Let_def shown_def split: option.splits)
  from writeByte_held [OF Suc.prems(1) w] have h:
    "rc = EOK" "fd d1 = fd d" "reg d1 = status_reg (reg d)" "exclusive d1 = exclusive d"
    "ctl_writes t1 = ctl_writes t @ map regval_of (byte_images (reg d) 1 ?ch)"
    by simp_all
  have k: "k = 17 - (i + 1)" using Suc.hyps(2) by simp
  from h(2) Suc.prems(1) have f1: "fd d1 \<noteq> -1" by simp
  from h(3) have e1: "\<not> EN (reg d1)" by simp
  from Suc.hyps(1) [OF k f1 e1 l] h
  have "r = res" "fd d' = fd d" "exclusive d' = exclusive d"
    "ctl_writes t' = (ctl_writes t @ map regval_of (byte_images (reg d) 1 ?ch)) @
        map regval_of (concat (map (\<lambda>j. byte_images (status_reg (reg d)) 1 (shown buf j))
           [i + 1..<17]))"
    by simp_all
  moreover have "byte_images (reg d) 1 ?ch = byte_images (status_reg (reg d)) 1 ?ch"
    using Suc.prems(2) by (intro byte_images_cong) simp_all
  moreover have "[i..<17] = i # [i + 1..<17]" using i by (simp add: upt_conv_Cons)
  ultimately show ?case by simp
qed

lemma LCDOpen_frame:
  "LCDOpen env Dev d t = (r1, d1, t1) \<Longrightarrow>
   reg d1 = reg d \<and> exclusive d1 = exclusive d \<and> (fd d1 \<noteq> -1 \<longrightarrow> r1 = EOK)"
  by (auto simp: LCDOpen_def Let_def split: if_splits option.splits prod.splits)

lemma DisplayLine_held:
  assumes "LCDOpen env Dev d t = (r1, d1, t1)" and "fd d1 \<noteq> -1"
    and "DisplayLine env Dev offset (Some buf) d t = Some (r, d', t')"
  shows "r = EOK \<and> fd d' = (if exclusive d then fd d1 else -1)
    \<and> ctl_writes t' = ctl_writes t1 @
         map regval_of (byte_images (reg d) 0 (0x80 OR word_of_int offset) @
            concat (map (\<lambda>j. byte_images (status_reg (reg d)) 1 (shown buf j)) [0..<17]))"
proof -
  from LCDOpen_frame [OF assms(1)] assms(2)
  have o: "r1 = EOK" "reg d1 = reg d" "exclusive d1 = exclusive d" by simp_all
  from assms(3) assms(1) o(1) obtain r2 d2 t2 where
    a: "SetADD env Dev (word_of_int offset) d1 t1 = Some (r2, d2, t2)"
    by (cases "SetADD env Dev (word_of_int offset) d1 t1") (auto simp: DisplayLine_def)
  then have "writeByte env Dev 0 (0x80 OR word_of_int offset) d1 t1 = Some (r2, d2, t2)"
    by (simp add: SetADD_def)
  from writeByte_held [OF assms(2) this] o have h:
    "r2 = EOK" "fd d2 = fd d1" "reg d2 = status_reg (reg d)" "exclusive d2 = exclusive d"
    "ctl_writes t2 = ctl_writes t1 @
        map regval_of (byte_images (reg d) 0 (0x80 OR word_of_int offset))"
    by simp_all
  from assms(3) assms(1) o(1) a h(1) obtain r3 d3 t3 where
    l: "DisplayLine_loop env Dev buf 0 EOK d2 t2 = Some (r3, d3, t3)"
    by (cases "DisplayLine_loop env Dev buf 0 EOK d2 t2") (auto simp: DisplayLine_def)
  from h(2) assms(2) have f2: "fd d2 \<noteq> -1" by simp
  from h(3) have e2: "\<not> EN (reg d2)" by simp
  from DisplayLine_loop_held [OF f2 e2 l] h have g:
    "r3 = EOK" "fd d3 = fd d1" "exclusive d3 = exclusive d"
    "ctl_writes t3 = (ctl_writes t1 @
        map regval_of (byte_images (reg d) 0 (0x80 OR word_of_int offset))) @
        map regval_of (concat (map (\<lambda>j. byte_images (status_reg (reg d)) 1 (shown buf j))
          [0..<17]))"
    by simp_all
  from assms(3) assms(1) o(1) a h(1) l
  have "r = r3" "d' = fst (snd (LCDClose env Dev d3 t3))"
    "t' = snd (snd (LCDClose env Dev d3 t3))"
    by (auto simp: DisplayLine_def split_beta)
  with g assms(2) show ?thesis
    by (auto simp: LCDClose_def)
qed

lemma shown_text_buffer:
  assumes "0 \<notin> set s" and "length s \<le> 17"
  shows "map (shown (text_buffer s)) [0..<17] = s @ replicate (17 - length s) 0x20"
proof (rule nth_equalityI)
  show "length (map (shown (text_buffer s)) [0..<17]) = length (s @ replicate (17 - length s) 0x20)"
    using assms(2) by simp
next
  fix i assume "i < length (map (shown (text_buffer s)) [0..<17])"
  then have i: "i < 17" by simp
  show "map (shown (text_buffer s)) [0..<17] ! i = (s @ replicate (17 - length s) 0x20) ! i"
  proof (cases "i < length s")
    case True
    then have "s ! i \<in> set s" by simp
    with assms(1) have "s ! i \<noteq> 0" by metis
    with True i show ?thesis by (simp add: shown_def text_buffer_def nth_append)
  next
    case False
    with i show ?thesis by (simp add: shown_def text_buffer_def nth_append)
  qed
qed


lemma c_read_never_busy:
  "never_busy env \<Longrightarrow> \<not> bit (fst (c_read env f 0 t)) 7"
  by (auto simp: c_read_def never_busy_def Let_def split: option.split)

lemma readStatus_never_busy:
  assumes "fd d \<noteq> -1" and "never_busy env"
  shows "\<not> busy (fst (snd (readStatus env Dev d t)))"
  using assms(1) c_read_never_busy [OF assms(2)]
  by (simp add: readStatus_def readByte_def Let_def split_beta busy_bit)

lemma writeByte_returns:
  assumes "fd d \<noteq> -1" and "never_busy env"
  shows "\<exists>r d' t'. writeByte env Dev rs val d t = Some (r, d', t')"
proof -
  let ?w = "write_images env Dev (byte_images (reg d) rs val) d t"
  have f: "fd (fst ?w) \<noteq> -1" using assms(1) by (simp add: write_images_fd)
  then have "\<not> busy (fst (snd (GetStatus env Dev (fst ?w) (snd ?w))))"
    using readStatus_never_busy [OF f assms(2)] by (simp add: GetStatus_held)
  then have "writeByte_poll env Dev (fst ?w) (snd ?w) = Some (GetStatus env Dev (fst ?w) (snd ?w))"
    by (intro poll_returns [of 0]) simp_all
  then show ?thesis
    by (cases "GetStatus env Dev (fst ?w) (snd ?w)") (simp add: writeByte_unfold Let_def)
qed

lemma DisplayLine_loop_returns:
  "fd d \<noteq> -1 \<Longrightarrow> never_busy env \<Longrightarrow>
   \<exists>r d' t'. DisplayLine_loop env Dev buf i res d t = Some (r, d', t')"
proof (induction "17 - i" arbitrary: i res d t)
  case 0
  then show ?case by (subst DisplayLine_loop.simps) simp
next
  case (Suc k)
  then have i: "i < 17" by simp
  from writeByte_returns [OF Suc.prems] obtain rc d1 t1 where
    w: "writeByte env Dev 1 (shown buf i) d t = Some (rc, d1, t1)" by blast
  from writeByte_held [OF Suc.prems(1) w] Suc.prems(1) have f1: "fd d1 \<noteq> -1" by simp
  have k: "k = 17 - (i + 1)" using Suc.hyps(2) by simp
  from Suc.hyps(1) [OF k f1 Suc.prems(2)] obtain r d' t' where
    "DisplayLine_loop env Dev buf (i + 1) (if rc \<noteq> EOK then rc else res) d1 t1 = Some (r, d', t')"
    by blast
  with w i show ?case
    by (subst DisplayLine_loop.simps) (simp add: Let_def shown_def)
qed

lemma DisplayLine_returns:
  assumes "LCDOpen env Dev d t = (r1, d1, t1)" and "fd d1 \<noteq> -1" and "never_busy env"
  shows "\<exists>r d' t'. DisplayLine env Dev offset (Some buf) d t = Some (r, d', t')"
proof -
  from LCDOpen_frame [OF assms(1)] assms(2) have o: "r1 = EOK" by simp
  from writeByte_returns [OF assms(2,3)] obtain r2 d2 t2 where
    a: "writeByte env Dev 0 (0x80 OR word_of_int offset) d1 t1 = Some (r2, d2, t2)" by blast
  from writeByte_held [OF assms(2) a] assms(2) have h: "r2 = EOK" "fd d2 \<noteq> -1" by simp_all
  from DisplayLine_loop_returns [OF h(2) assms(3)] obtain r3 d3 t3 where
    "DisplayLine_loop env Dev buf 0 EOK d2 t2 = Some (r3, d3, t3)" by blast
  with assms(1) o a h(1) show ?thesis
    by (simp add: DisplayLine_def SetADD_def split_beta)
qed

lemma bytes_sent_line:
  "bytes_sent (byte_images r rs v @ line_images r' buf) =
     (rs \<noteq> 0, v) # map (\<lambda>i. (True, shown buf i)) [0..<17]"
  by (simp add: bytes_sent_block bytes_sent_blocks line_images_def del: upt.simps)

lemma DisplayLine_absent:
  "DisplayLine absent_env Dev offset (Some buf) dev0 [] =
     Some (2, dev0, [EvOpen ''/dev/i2c-1'' (-1)])"
  by (simp add: DisplayLine_def LCDOpen_def eval_defs)

text \<open>
  C1 (as amended). For a non-null device and a non-null line buffer: when \<open>LCDOpen\<close>
  fails, \<open>DisplayLine\<close> returns its error and writes nothing. When \<open>LCDOpen\<close> leaves a
  connection held and \<open>DisplayLine\<close> returns, the result is \<open>EOK\<close> and the write traffic it
  adds after \<open>LCDOpen\<close> is that of the set-address instruction followed by exactly
  seventeen data-register bytes (RS high); the byte for position \<open>i\<close> is \<open>line[i]\<close>, or
  a space (\<open>0x20\<close>) where \<open>line[i]\<close> is zero. Each position is treated on its own: a null
  byte blanks its own position only. So a text without null bytes of at most 17 bytes,
  followed in the buffer by zero bytes, is sent followed by spaces up to 17 bytes; with
  16 characters the only space is the one sent for the terminator.
\<close>

theorem DisplayLine_writes:
  assumes "LCDOpen env Dev d t = (r1, d1, t1)"
  shows "(r1 \<noteq> EOK \<longrightarrow> DisplayLine env Dev offset (Some buf) d t = Some (r1, d1, t1))
    \<and> (fd d1 \<noteq> -1 \<longrightarrow> DisplayLine env Dev offset (Some buf) d t = Some (r, d', t') \<longrightarrow>
          r = EOK
        \<and> ctl_writes t' = ctl_writes t1 @
             map regval_of (byte_images (reg d) 0 (0x80 OR word_of_int offset)
                            @ line_images (reg d) buf)
        \<and> bytes_sent (byte_images (reg d) 0 (0x80 OR word_of_int offset)
                       @ line_images (reg d) buf)
             = (False, 0x80 OR word_of_int offset) # map (\<lambda>i. (True, shown buf i)) [0..<17]
        \<and> length (map (\<lambda>i. (True, shown buf i)) [0..<17]) = 17
        \<and> (buf = text_buffer s \<longrightarrow> 0 \<notin> set s \<longrightarrow> length s \<le> 17 \<longrightarrow>
              map (shown buf) [0..<17] = s @ replicate (17 - length s) 0x20))"
proof (intro conjI impI)
  assume "r1 \<noteq> EOK"
  with assms show "DisplayLine env Dev offset (Some buf) d t = Some (r1, d1, t1)"
    by (simp add: DisplayLine_def)
next
  assume h: "fd d1 \<noteq> -1" "DisplayLine env Dev offset (Some buf) d t = Some (r, d', t')"
  from DisplayLine_held [OF assms h] show "r = EOK" by simp
  from DisplayLine_held [OF assms h]
  show "ctl_writes t' = ctl_writes t1 @
             map regval_of (byte_images (reg d) 0 (0x80 OR word_of_int offset)
                            @ line_images (reg d) buf)"
    by (simp add: line_images_def)
  show "bytes_sent (byte_images (reg d) 0 (0x80 OR word_of_int offset)
                       @ line_images (reg d) buf)
             = (False, 0x80 OR word_of_int offset) # map (\<lambda>i. (True, shown buf i)) [0..<17]"
    by (simp add: bytes_sent_line del: upt.simps)
  show "length (map (\<lambda>i. (True, shown buf i)) [0..<17]) = 17" by simp
next
  assume "buf = text_buffer s" "0 \<notin> set s" "length s \<le> 17"
  then show "map (shown buf) [0..<17] = s @ replicate (17 - length s) 0x20"
    by (simp add: shown_text_buffer del: upt.simps)
qed

lemma never_busy_steady: "never_busy (steady_env 0)"
  by (simp add: never_busy_def steady_env_def lcd_env_def Let_def)

lemma upt17: "[0..<17] = [0, 1, 2, 3, 4, 5, 6, 7, 8, 9, 10, 11, 12, 13, 14, 15, 16 :: nat]"
  by (simp add: upt_conv_Cons upt_rec_numeral)

lemma shown_example:
  "map (\<lambda>i. (True, shown (text_buffer [0x41, 0, 0x42]) i)) [0..<17] =
     [(True, 0x41), (True, 0x20), (True, 0x42), (True, 0x20), (True, 0x20), (True, 0x20),
      (True, 0x20), (True, 0x20), (True, 0x20), (True, 0x20), (True, 0x20), (True, 0x20),
      (True, 0x20), (True, 0x20), (True, 0x20), (True, 0x20), (True, 0x20)]"
  by (simp add: upt17 shown_def text_buffer_def)

lemma LCDOpen_dev0:
  "LCDOpen (steady_env 0) Dev dev0 [] =
     (EOK, dev_open, [EvOpen ''/dev/i2c-1'' 3, EvIoctl 3 0x27 0, EvWrite 3 8])"
  by (simp add: LCDOpen_def steady_env_def eval_defs)

lemma LCDOpen_dev_open: "LCDOpen (steady_env 0) Dev dev_open [] = (EOK, dev_open, [])"
  by (simp add: LCDOpen_def dev_open_def)

lemma LCDOpen_absent:
  "LCDOpen absent_env Dev dev0 [] = (2, dev0, [EvOpen ''/dev/i2c-1'' (-1)])"
  by (simp add: LCDOpen_def eval_defs)

theorem DisplayLine_writes_witness:
  "LCDOpen (steady_env 0) Dev dev0 [] =
     (EOK, dev_open, [EvOpen ''/dev/i2c-1'' 3, EvIoctl 3 0x27 0, EvWrite 3 8])
   \<and> fd dev_open \<noteq> -1
   \<and> 0 \<notin> set hello_world
   \<and> length hello_world \<le> 17
   \<and> (\<exists>r d' t'.
         DisplayLine (steady_env 0) Dev 0 (Some (text_buffer hello_world)) dev0 [] = Some (r, d', t')
       \<and> r = EOK
       \<and> ctl_writes t' = [8] @
             map regval_of (byte_images (reg dev0) 0 0x80
                            @ line_images (reg dev0) (text_buffer hello_world))
       \<and> bytes_sent (byte_images (reg dev0) 0 0x80
                       @ line_images (reg dev0) (text_buffer hello_world))
             = (False, 0x80) # map (\<lambda>i. (True, shown (text_buffer hello_world) i)) [0..<17]
       \<and> map (shown (text_buffer hello_world)) [0..<17] = hello_world @ replicate 6 0x20)
   \<and> LCDOpen absent_env Dev dev0 [] = (2, dev0, [EvOpen ''/dev/i2c-1'' (-1)])
   \<and> 2 \<noteq> EOK
   \<and> DisplayLine absent_env Dev 0 (Some (text_buffer hello_world)) dev0 [] =
        Some (2, dev0, [EvOpen ''/dev/i2c-1'' (-1)])"
proof -
  let ?E = "steady_env 0"
  let ?s = "hello_world"
  let ?buf = "text_buffer ?s"
  have o: "fd dev_open \<noteq> -1" by (simp add: dev_open_def)
  have s: "0 \<notin> set ?s" "length ?s \<le> 17" by (simp_all add: hello_world_def)
  from DisplayLine_returns [OF LCDOpen_dev0 o never_busy_steady, of 0 ?buf]
  obtain r d' t' where run: "DisplayLine ?E Dev 0 (Some ?buf) dev0 [] = Some (r, d', t')"
    by blast
  from DisplayLine_writes [OF LCDOpen_dev0, of 0 ?buf r d' t' ?s] o run s
  have "r = EOK"
    "ctl_writes t' = ctl_writes [EvOpen ''/dev/i2c-1'' 3, EvIoctl 3 0x27 0, EvWrite 3 8] @
             map regval_of (byte_images (reg dev0) 0 (0x80 OR word_of_int 0)
                            @ line_images (reg dev0) ?buf)"
    "bytes_sent (byte_images (reg dev0) 0 (0x80 OR word_of_int 0) @ line_images (reg dev0) ?buf)
             = (False, 0x80 OR word_of_int 0) # map (\<lambda>i. (True, shown ?buf i)) [0..<17]"
    "map (shown ?buf) [0..<17] = ?s @ replicate (17 - length ?s) 0x20"
    by blast+
  then have "r = EOK"
    "ctl_writes t' = [8] @
             map regval_of (byte_images (reg dev0) 0 0x80 @ line_images (reg dev0) ?buf)"
    "bytes_sent (byte_images (reg dev0) 0 0x80 @ line_images (reg dev0) ?buf)
             = (False, 0x80) # map (\<lambda>i. (True, shown ?buf i)) [0..<17]"
    "map (shown ?buf) [0..<17] = hello_world @ replicate 6 0x20"
    by (simp_all add: hello_world_def del: upt.simps)
  with run have first: "\<exists>r d' t'.
         DisplayLine ?E Dev 0 (Some ?buf) dev0 [] = Some (r, d', t')
       \<and> r = EOK
       \<and> ctl_writes t' = [8] @
             map regval_of (byte_images (reg dev0) 0 0x80 @ line_images (reg dev0) ?buf)
       \<and> bytes_sent (byte_images (reg dev0) 0 0x80 @ line_images (reg dev0) ?buf)
             = (False, 0x80) # map (\<lambda>i. (True, shown ?buf i)) [0..<17]
       \<and> map (shown ?buf) [0..<17] = hello_world @ replicate 6 0x20"
    by blast
  have ne: "(2::int) \<noteq> EOK" by (simp add: EOK_def)
  from DisplayLine_writes [OF LCDOpen_absent, of 0 ?buf] ne
  have "DisplayLine absent_env Dev 0 (Some ?buf) dev0 [] =
        Some (2, dev0, [EvOpen ''/dev/i2c-1'' (-1)])"
    by blast
  with first LCDOpen_dev0 LCDOpen_absent o s ne show ?thesis
    by (simp del: upt.simps)
qed

text \<open>
  C1 as stated fails in two ways. Where the bus device cannot be opened, \<open>DisplayLine\<close>
  returns the error of \<open>LCDOpen\<close> and writes no byte at all. And a null byte inside the
  buffer does not end the visible text: for the buffer \<open>A\<close>, null, \<open>B\<close>, zeros the
  controller receives \<open>A\<close>, a space, \<open>B\<close> and then spaces.
\<close>

lemma received_example:
  "received_in (DisplayLine (steady_env 0) Dev 0 (Some (text_buffer [0x41, 0, 0x42])) dev_open [])
    = Some [(False, 0x80), (True, 0x41), (True, 0x20), (True, 0x42), (True, 0x20),
            (True, 0x20), (True, 0x20), (True, 0x20), (True, 0x20), (True, 0x20),
            (True, 0x20), (True, 0x20), (True, 0x20), (True, 0x20), (True, 0x20),
            (True, 0x20), (True, 0x20), (True, 0x20)]"
proof -
  let ?buf = "text_buffer [0x41, 0, 0x42]"
  have o: "fd dev_open \<noteq> -1" by (simp add: dev_open_def)
  from DisplayLine_returns [OF LCDOpen_dev_open o never_busy_steady, of 0 ?buf]
  obtain r d' t' where
    run: "DisplayLine (steady_env 0) Dev 0 (Some ?buf) dev_open [] = Some (r, d', t')"
    by blast
  from DisplayLine_held [OF LCDOpen_dev_open o run]
  have "ctl_writes t' = map regval_of (byte_images (reg dev_open) 0 0x80
            @ line_images (reg dev_open) ?buf)"
    by (simp add: line_images_def del: upt.simps)
  then have "received t' =
      bytes_sent (byte_images (reg dev_open) 0 0x80 @ line_images (reg dev_open) ?buf)"
    by (simp add: received_def comp_def del: upt.simps map_append)
  then have "received t' = (False, 0x80) # map (\<lambda>i. (True, shown ?buf i)) [0..<17]"
    by (simp add: bytes_sent_line del: upt.simps)
  with run show ?thesis by (simp add: received_in_def shown_example del: upt.simps)
qed

theorem DisplayLine_writes_counterexample:
  "DisplayLine absent_env Dev 0 (Some (text_buffer [0x41, 0, 0x42])) dev0 [] =
     Some (2, dev0, [EvOpen ''/dev/i2c-1'' (-1)])
   \<and> received_in
        (DisplayLine (steady_env 0) Dev 0 (Some (text_buffer [0x41, 0, 0x42])) dev_open [])
      = Some [(False, 0x80), (True, 0x41), (True, 0x20), (True, 0x42), (True, 0x20),
              (True, 0x20), (True, 0x20), (True, 0x20), (True, 0x20), (True, 0x20),
              (True, 0x20), (True, 0x20), (True, 0x20), (True, 0x20), (True, 0x20),
              (True, 0x20), (True, 0x20), (True, 0x20)]"
  using received_example DisplayLine_absent by simp

section \<open>The initialisation sequence\<close>



lemma nibble_images_cong:
  "EN r = EN r' \<Longrightarrow> LED r = LED r' \<Longrightarrow> nibble_images r n = nibble_images r' n"
  by (simp add: nibble_images_def)

















section \<open>Status sampling and the busy poll\<close>

lemma bit7_byte: "((v::8 word) AND 0x80 \<noteq> 0) = bit v 7"
  using and_exp_eq_0_iff_not_bit [of v 7] by simp

lemma readByte_exact:
  assumes "fd d \<noteq> -1"
  shows "readByte env Dev d t =
     ((EOK, Some (fst (sample_status env (fd d) (reg d) t))), d\<lparr>reg := status_reg (reg d)\<rparr>,
      snd (sample_status env (fd d) (reg d) t))"
proof -
  obtain rs rw en led d4 where r: "reg d = \<lparr> RS = rs, RW = rw, EN = en, LED = led, D4 = d4 \<rparr>"
    by (cases "reg d") auto
  show ?thesis using assms r
    by (simp add: readByte_def sample_status_def status_reg_def Let_def split_beta regval_def)
qed

lemma readStatus_exact:
  assumes "fd d \<noteq> -1"
  shows "readStatus env Dev d t =
     (EOK, decoded d (fst (sample_status env (fd d) (reg d) t)),
      snd (sample_status env (fd d) (reg d) t))"
  using assms
  by (simp add: readStatus_def readByte_exact decoded_def Let_def bit7_byte and63)

lemma decoded_fields [simp]:
  "fd (decoded d v) = fd d" "reg (decoded d v) = status_reg (reg d)"
  "busy (decoded d v) = bit v 7" "device (decoded d v) = device d"
  "exclusive (decoded d v) = exclusive d" "address (decoded d v) = address d"
  "AddressCounter (decoded d v) = v AND 0x7F"
  "cx (decoded d v) = uint (v AND 0x7F) mod 0x40 + 1"
  "cy (decoded d v) = (if v AND 0x7F \<ge> 0x40 then 2 else 1)"
  by (simp_all add: decoded_def)

lemma decoded_decoded [simp]: "decoded (decoded d v) w = decoded d w"
  by (simp add: decoded_def)






lemma last_byte_images_eq:
  "last (byte_images r rs val) =
     \<lparr> RS = (rs \<noteq> 0), RW = False, EN = False, LED = LED r, D4 = ucast (val AND 0x0F) \<rparr>"
  by (simp add: byte_images_def Let_def)











subsection \<open>Setting the address and reading the cursor\<close>







lemma readStatus_run2:
  "readStatus (steady_env 0x40) Dev dev_open [] =
     (0, \<lparr>device = Some ''/dev/i2c-1'', fd = 3, busy = False, exclusive = False, address = 39,
          AddressCounter = 0x40, cx = 1, cy = 2,
          reg = \<lparr>RS = False, RW = True, EN = False, LED = True, D4 = 15\<rparr>\<rparr>,
      [EvWrite 3 250, EvWrite 3 254, EvRead 3 (Some 64), EvWrite 3 250, EvWrite 3 254,
       EvRead 3 (Some 0), EvWrite 3 250])"
  by (simp add: eval_defs)




subsection \<open>The connection of a status read\<close>

lemma fd_closed_update: "fd d = -1 \<Longrightarrow> d\<lparr>fd := -1\<rparr> = d"
  by (cases d) simp

lemma decoded_transient:
  "fd d = -1 \<Longrightarrow> (decoded (d\<lparr>fd := f\<rparr>) v)\<lparr>fd := -1\<rparr> = decoded d v"
  by (cases d) (simp add: decoded_def)

text \<open>
  C4 (as amended). With no connection held, \<open>readByte\<close> and \<open>readStatus\<close> fail with
  \<open>EBADF\<close>, touch neither the device object nor the bus, and so never open a connection.
  \<open>GetStatus\<close> is different. With a connection held it samples the status over the held
  descriptor, with no \<open>open\<close> and no \<open>close\<close>. With no connection held: without a device
  name it fails with \<open>ENODEV\<close> and does nothing; otherwise it opens the bus device; if
  \<open>open\<close> fails it returns the error of \<open>open\<close>; if the address \<open>ioctl\<close> fails it closes
  the descriptor and returns \<open>ENXIO\<close>, the device object unchanged; and if both succeed it
  samples the status through the transient descriptor, closes it and returns \<open>EOK\<close>. In
  every case the stored descriptor is the same after \<open>GetStatus\<close> as before.
\<close>

theorem status_read_connection:
  "fd (fst (snd (GetStatus env Dev d t))) = fd d
   \<and> (fd d = -1 \<longrightarrow>
         readByte env Dev d t = ((EBADF, None), d, t) \<and> readStatus env Dev d t = (EBADF, d, t))
   \<and> (fd d \<noteq> -1 \<longrightarrow>
         GetStatus env Dev d t =
           (EOK, decoded d (fst (sample_status env (fd d) (reg d) t)),
            snd (sample_status env (fd d) (reg d) t)))
   \<and> (fd d = -1 \<longrightarrow> device d = None \<longrightarrow> GetStatus env Dev d t = (ENODEV, d, t))
   \<and> (fd d = -1 \<longrightarrow> device d = Some name \<longrightarrow> sys_open env t name = (f, e) \<longrightarrow>
        sys_ioctl env (t @ [EvOpen name f]) f (address d) = rc \<longrightarrow>
        GetStatus env Dev d t =
          (if f = -1 then (e, d, t @ [EvOpen name f])
           else if rc < 0 then
             (ENXIO, d, t @ [EvOpen name f, EvIoctl f (address d) rc, EvClose f])
           else
             (EOK,
              decoded d (fst (sample_status env f (reg d)
                                (t @ [EvOpen name f, EvIoctl f (address d) rc]))),
              snd (sample_status env f (reg d)
                     (t @ [EvOpen name f, EvIoctl f (address d) rc])) @ [EvClose f])))"
proof (intro conjI impI)
  show "fd (fst (snd (GetStatus env Dev d t))) = fd d" by (rule GetStatus_fd)
next
  assume "fd d = -1"
  then show "readByte env Dev d t = ((EBADF, None), d, t)" by (rule readByte_closed)
next
  assume "fd d = -1"
  then show "readStatus env Dev d t = (EBADF, d, t)" by (rule readStatus_closed)
next
  assume h: "fd d \<noteq> -1"
  show "GetStatus env Dev d t =
           (EOK, decoded d (fst (sample_status env (fd d) (reg d) t)),
            snd (sample_status env (fd d) (reg d) t))"
    using GetStatus_held [OF h, of env t] readStatus_exact [OF h, of env t] by simp
next
  assume "fd d = -1" "device d = None"
  then show "GetStatus env Dev d t = (ENODEV, d, t)" by (simp add: GetStatus_def)
next
  assume a: "fd d = -1" "device d = Some name" "sys_open env t name = (f, e)"
    "sys_ioctl env (t @ [EvOpen name f]) f (address d) = rc"
  show "GetStatus env Dev d t =
          (if f = -1 then (e, d, t @ [EvOpen name f])
           else if rc < 0 then
             (ENXIO, d, t @ [EvOpen name f, EvIoctl f (address d) rc, EvClose f])
           else
             (EOK,
              decoded d (fst (sample_status env f (reg d)
                                (t @ [EvOpen name f, EvIoctl f (address d) rc]))),
              snd (sample_status env f (reg d)
                     (t @ [EvOpen name f, EvIoctl f (address d) rc])) @ [EvClose f]))"
  proof (cases "f = -1")
    case True
    with a show ?thesis by (simp add: GetStatus_def)
  next
    case False
    then have h: "fd (d\<lparr>fd := f\<rparr>) \<noteq> -1" by simp
    show ?thesis
    proof (cases "rc < 0")
      case True
      with a False fd_closed_update [OF a(1)] show ?thesis
        by (simp add: GetStatus_def Let_def)
    next
      case nonneg: False
      with a False decoded_transient [OF a(1)]
        readStatus_exact [OF h, of env "t @ [EvOpen name f, EvIoctl f (address d) rc]"]
      show ?thesis
        by (simp add: GetStatus_def Let_def)
    qed
  qed
qed

lemmas sample_eval = sample_status_def c_read_def lcd_env_def steady_env_def absent_env_def
  unaddressed_env_def decoded_def dev0_def dev_open_def status_reg_def regval_of_def Let_def
  errno_defs

theorem status_read_connection_witness:
  "fd dev0 = -1 \<and> fd dev_open \<noteq> -1
   \<and> device (dev0\<lparr>device := None\<rparr>) = None
   \<and> device dev0 = Some ''/dev/i2c-1''
   \<and> readByte (steady_env 0x11) Dev dev0 [] = ((EBADF, None), dev0, [])
   \<and> readStatus (steady_env 0x11) Dev dev0 [] = (EBADF, dev0, [])
   \<and> GetStatus (steady_env 0x11) Dev dev_open [] =
        (0, dev_open\<lparr>AddressCounter := 17, cx := 18, cy := 1,
                     reg := \<lparr>RS = False, RW = True, EN = False, LED = True, D4 = 15\<rparr>\<rparr>,
         [EvWrite 3 250, EvWrite 3 254, EvRead 3 (Some 16), EvWrite 3 250, EvWrite 3 254,
          EvRead 3 (Some 16), EvWrite 3 250])
   \<and> GetStatus (steady_env 0x11) Dev (dev0\<lparr>device := None\<rparr>) [] =
        (19, dev0\<lparr>device := None\<rparr>, [])
   \<and> sys_open absent_env [] ''/dev/i2c-1'' = (-1, 2)
   \<and> GetStatus absent_env Dev dev0 [] = (2, dev0, [EvOpen ''/dev/i2c-1'' (-1)])
   \<and> sys_open unaddressed_env [] ''/dev/i2c-1'' = (3, 0)
   \<and> sys_ioctl unaddressed_env [EvOpen ''/dev/i2c-1'' 3] 3 (address dev0) = -1
   \<and> GetStatus unaddressed_env Dev dev0 [] =
        (6, dev0, [EvOpen ''/dev/i2c-1'' 3, EvIoctl 3 39 (-1), EvClose 3])
   \<and> sys_open (steady_env 0x11) [] ''/dev/i2c-1'' = (3, 0)
   \<and> sys_ioctl (steady_env 0x11) [EvOpen ''/dev/i2c-1'' 3] 3 (address dev0) = 0
   \<and> GetStatus (steady_env 0x11) Dev dev0 [] =
        (0, dev0\<lparr>AddressCounter := 17, cx := 18, cy := 1,
                 reg := \<lparr>RS = False, RW = True, EN = False, LED = True, D4 = 15\<rparr>\<rparr>,
         [EvOpen ''/dev/i2c-1'' 3, EvIoctl 3 39 0, EvWrite 3 250, EvWrite 3 254,
          EvRead 3 (Some 16), EvWrite 3 250, EvWrite 3 254, EvRead 3 (Some 16),
          EvWrite 3 250, EvClose 3])"
proof -
  have c: "fd dev0 = -1" "fd dev_open \<noteq> -1" "device (dev0\<lparr>device := None\<rparr>) = None"
    "device dev0 = Some ''/dev/i2c-1''" "fd (dev0\<lparr>device := None\<rparr>) = -1"
    by (simp_all add: dev0_def dev_open_def)
  have o: "sys_open absent_env [] ''/dev/i2c-1'' = (-1, 2)"
    "sys_open unaddressed_env [] ''/dev/i2c-1'' = (3, 0)"
    "sys_ioctl unaddressed_env [EvOpen ''/dev/i2c-1'' 3] 3 (address dev0) = -1"
    "sys_open (steady_env 0x11) [] ''/dev/i2c-1'' = (3, 0)"
    "sys_ioctl (steady_env 0x11) [EvOpen ''/dev/i2c-1'' 3] 3 (address dev0) = 0"
    by (simp_all add: sample_eval)
  from status_read_connection [of "steady_env 0x11" dev0 "[]" "''/dev/i2c-1''" 3 0 0] c o
  have 1: "readByte (steady_env 0x11) Dev dev0 [] = ((EBADF, None), dev0, [])"
    "readStatus (steady_env 0x11) Dev dev0 [] = (EBADF, dev0, [])"
    "GetStatus (steady_env 0x11) Dev dev0 [] =
       (EOK,
        decoded dev0 (fst (sample_status (steady_env 0x11) 3 (reg dev0)
                             ([] @ [EvOpen ''/dev/i2c-1'' 3, EvIoctl 3 (address dev0) 0]))),
        snd (sample_status (steady_env 0x11) 3 (reg dev0)
                ([] @ [EvOpen ''/dev/i2c-1'' 3, EvIoctl 3 (address dev0) 0])) @ [EvClose 3])"
    by simp_all
  from status_read_connection [of "steady_env 0x11" dev_open "[]"] c
  have 2: "GetStatus (steady_env 0x11) Dev dev_open [] =
       (EOK, decoded dev_open (fst (sample_status (steady_env 0x11) (fd dev_open) (reg dev_open) [])),
        snd (sample_status (steady_env 0x11) (fd dev_open) (reg dev_open) []))"
    by blast
  from status_read_connection [of "steady_env 0x11" "dev0\<lparr>device := None\<rparr>" "[]"] c
  have 3: "GetStatus (steady_env 0x11) Dev (dev0\<lparr>device := None\<rparr>) [] =
        (ENODEV, dev0\<lparr>device := None\<rparr>, [])"
    by blast
  from status_read_connection [of absent_env dev0 "[]" "''/dev/i2c-1''" "-1" 2] c o
  have 4: "GetStatus absent_env Dev dev0 [] = (2, dev0, [EvOpen ''/dev/i2c-1'' (-1)])"
    by simp
  from status_read_connection [of unaddressed_env dev0 "[]" "''/dev/i2c-1''" 3 0 "-1"] c o
  have 5: "GetStatus unaddressed_env Dev dev0 [] =
        (ENXIO, dev0, [] @ [EvOpen ''/dev/i2c-1'' 3, EvIoctl 3 (address dev0) (-1), EvClose 3])"
    by simp
  show ?thesis
    unfolding 1 2 3 4 5 using c o by (simp add: sample_eval)
qed

text \<open>
  C4 as stated fails for \<open>GetStatus\<close>: on a device with no connection held it returns
  \<open>EOK\<close>, not an error, after opening the bus device, reading the status and closing it.
\<close>

theorem status_read_connection_counterexample:
  "fd dev0 = -1
   \<and> fst (GetStatus (steady_env 0x11) Dev dev0 []) = EOK
   \<and> snd (snd (GetStatus (steady_env 0x11) Dev dev0 [])) =
       [EvOpen ''/dev/i2c-1'' 3, EvIoctl 3 39 0, EvWrite 3 250, EvWrite 3 254,
        EvRead 3 (Some 16), EvWrite 3 250, EvWrite 3 254, EvRead 3 (Some 16),
        EvWrite 3 250, EvClose 3]"
  by (simp add: GetStatus_run) (simp add: dev0_def EOK_def)

section \<open>Properties of the accessors and of the connection\<close>

text \<open>
  C9. Backlight and address round-trip: after \<open>SetBacklight b\<close> the getter stores \<open>b\<close>,
  and after \<open>SetAddress a\<close> the getter stores \<open>a\<close>, for both booleans and every 8-bit
  address, on every non-null device and whatever the bus does during the register write.
\<close>

theorem backlight_address_roundtrip:
  "GetBacklight Dev Dev (fst (snd (SetBacklight env Dev b d t))) = (EOK, Some b)
   \<and> GetAddress Dev Dev (snd (SetAddress Dev a d)) = (EOK, Some a)"
proof -
  have "fst (snd (SetBacklight env Dev b d t)) = d\<lparr>reg := (reg d)\<lparr>LED := b\<rparr>\<rparr>"
    using writeReg_dev [of env Dev "d\<lparr>reg := (reg d)\<lparr>LED := b\<rparr>\<rparr>" t]
    by (cases b) (simp_all add: SetBacklight_def split_beta)
  then have "GetBacklight Dev Dev (fst (snd (SetBacklight env Dev b d t))) = (EOK, Some b)"
    by (simp add: GetBacklight_def)
  moreover have "GetAddress Dev Dev (snd (SetAddress Dev a d)) = (EOK, Some a)"
    by (simp add: SetAddress_def GetAddress_def)
  ultimately show ?thesis by simp
qed

theorem backlight_address_roundtrip_witness:
  "GetBacklight Dev Dev (fst (snd (SetBacklight absent_env Dev True dev0 []))) = (EOK, Some True)
   \<and> GetBacklight Dev Dev (fst (snd (SetBacklight absent_env Dev False dev0 []))) = (EOK, Some False)
   \<and> GetAddress Dev Dev (snd (SetAddress Dev 0x50 dev0)) = (EOK, Some 0x50)"
  using backlight_address_roundtrip [of absent_env True dev0 "[]" "0x50"]
    backlight_address_roundtrip [of absent_env False dev0 "[]" "0x50"]
  by simp

text \<open>
  C10. On a non-null device \<open>SetBacklight\<close> and \<open>SetExclusive\<close> update the backlight bit
  and the exclusive flag and still return \<open>EINVAL\<close>, the very code they return for a
  \<open>NULL\<close> device: \<open>result\<close> is never assigned on the success path.
\<close>

theorem setters_return_EINVAL:
  "fst (SetBacklight env Dev b d t) = EINVAL
   \<and> LED (reg (fst (snd (SetBacklight env Dev b d t)))) = b
   \<and> fst (SetExclusive Dev x d) = EINVAL
   \<and> exclusive (snd (SetExclusive Dev x d)) = x
   \<and> fst (SetBacklight env NULL b d t) = fst (SetBacklight env Dev b d t)
   \<and> fst (SetExclusive NULL x d) = fst (SetExclusive Dev x d)
   \<and> EINVAL \<noteq> EOK"
proof -
  have "fst (snd (SetBacklight env Dev b d t)) = d\<lparr>reg := (reg d)\<lparr>LED := b\<rparr>\<rparr>"
    using writeReg_dev [of env Dev "d\<lparr>reg := (reg d)\<lparr>LED := b\<rparr>\<rparr>" t]
    by (cases b) (simp_all add: SetBacklight_def split_beta)
  then have "LED (reg (fst (snd (SetBacklight env Dev b d t)))) = b" by simp
  moreover have "fst (SetBacklight env Dev b d t) = EINVAL"
    by (simp add: SetBacklight_def split_beta)
  moreover have "fst (SetBacklight env NULL b d t) = EINVAL"
    by (simp add: SetBacklight_def)
  ultimately show ?thesis by (simp add: SetExclusive_def errno_defs)
qed

theorem setters_return_EINVAL_witness:
  "fst (SetBacklight absent_env Dev False dev0 []) = 22
   \<and> LED (reg (fst (snd (SetBacklight absent_env Dev False dev0 [])))) = False
   \<and> fst (SetExclusive Dev True dev0) = 22
   \<and> exclusive (snd (SetExclusive Dev True dev0)) = True"
  using setters_return_EINVAL [of absent_env False dev0 "[]" True]
  by (simp add: EINVAL_def)

text \<open>
  C7. On a non-null device \<open>LCDClose\<close> always returns \<open>EOK\<close>; while the exclusive flag is
  set it changes neither the device nor the bus; and right after \<open>SetExclusive\<close> with
  \<open>false\<close> it leaves the descriptor closed, having closed the one that was held if any.
\<close>

theorem close_exclusive:
  "fst (LCDClose env Dev d t) = EOK
   \<and> (exclusive d \<longrightarrow> LCDClose env Dev d t = (EOK, d, t))
   \<and> fd (fst (snd (LCDClose env Dev (snd (SetExclusive Dev False d)) t))) = -1
   \<and> LCDClose env Dev (snd (SetExclusive Dev False d)) t =
       (EOK, d\<lparr>exclusive := False, fd := -1\<rparr>,
        if fd d \<noteq> -1 then t @ [EvClose (fd d)] else t)"
  by (cases d) (simp add: LCDClose_def SetExclusive_def)

theorem close_exclusive_witness:
  "exclusive (dev_open\<lparr>exclusive := True\<rparr>)
   \<and> LCDClose absent_env Dev (dev_open\<lparr>exclusive := True\<rparr>) [] =
       (EOK, dev_open\<lparr>exclusive := True\<rparr>, [])
   \<and> LCDClose absent_env Dev (snd (SetExclusive Dev False (dev_open\<lparr>exclusive := True\<rparr>))) [] =
       (EOK, dev0, [EvClose 3])"
  using close_exclusive [of absent_env "dev_open\<lparr>exclusive := True\<rparr>" "[]"]
  by (simp add: dev_open_def dev0_def)

end
